theory Spec2Isabelle
  imports Complex_Main "HOL-Library.Char_ord" "HOL-Library.List_Lexorder" "HOL-Library.Log_Nat"
begin

section \<open>Recipe cost and nutrient summary (src/main.ts)\<close>

text \<open>
  A shallow embedding of the functions of \<^verbatim>\<open>src/main.ts\<close>:
  \<^verbatim>\<open>convertUnitsWithFallback\<close>, \<^verbatim>\<open>handleVolumeToMassConversion\<close>,
  \<^verbatim>\<open>handleMassToVolumeConversion\<close>, \<^verbatim>\<open>getNormalizedCost\<close>,
  \<^verbatim>\<open>findCheapestSupplier\<close>, \<^verbatim>\<open>calculateNutrientContribution\<close>,
  \<^verbatim>\<open>sortNutrientsAlphabetically\<close> and \<^verbatim>\<open>calculateRecipeSummary\<close>.
  The collaborators imported from \<^verbatim>\<open>./supporting-files\<close> (\<^verbatim>\<open>ConvertUnits\<close>,
  \<^verbatim>\<open>GetNutrientFactInBaseUnits\<close>, \<^verbatim>\<open>GetProductsForIngredient\<close>) are parameters
  of the model: every theorem holds for whatever they compute.
\<close>

subsection \<open>Numbers\<close>

text \<open>
  A TypeScript \<^verbatim>\<open>number\<close> is an IEEE 754 double: a finite value other than zero, one
  of the two zeros, \<^verbatim>\<open>Infinity\<close>, \<^verbatim>\<open>-Infinity\<close> or \<^verbatim>\<open>NaN\<close>. A finite value is
  carried as the real number it denotes; \<open>Num 0\<close> is the positive zero and \<open>NegZero\<close>
  the negative zero. The data of the program holds doubles; a value \<open>Num r\<close> that comes
  from the data is used as it is.
\<close>

datatype number = Num real | NegZero | PosInf | NegInf | NaN

text \<open>
  Rounding to the nearest double, ties to even. \<open>floorLog2 a\<close> is the exponent of the
  leading bit of a positive \<open>a\<close>. A double has 53 significant bits, and no double has a
  leading bit below \<open>2 ^ -1022\<close>: below that the spacing stays \<open>2 ^ -1074\<close> (gradual
  underflow). A magnitude that rounds to \<open>2 ^ 1024\<close> or more overflows to an infinity,
  one that rounds to zero gives the zero of its sign.
\<close>

definition pow2 :: "int \<Rightarrow> real" where
  "pow2 e = (if 0 \<le> e then 2 ^ nat e else 1 / 2 ^ nat (- e))"

definition floorLog2 :: "real \<Rightarrow> int" where
  "floorLog2 a = (if 1 \<le> a then bitlen \<lfloor>a\<rfloor> - 1 else - bitlen (\<lceil>1 / a\<rceil> - 1))"

definition roundHalfEven :: "real \<Rightarrow> int" where
  "roundHalfEven y =
     (let f = \<lfloor>y\<rfloor>; d = y - of_int f
      in if d < 1 / 2 then f else if 1 / 2 < d then f + 1 else if even f then f else f + 1)"

definition roundMagnitude :: "real \<Rightarrow> real" where
  "roundMagnitude a =
     (let ulp = pow2 (max (floorLog2 a) (- 1022) - 52)
      in of_int (roundHalfEven (a / ulp)) * ulp)"

definition signedZero :: "bool \<Rightarrow> number" where
  "signedZero negative = (if negative then NegZero else Num 0)"

definition signedInfinity :: "bool \<Rightarrow> number" where
  "signedInfinity negative = (if negative then NegInf else PosInf)"

definition toDouble :: "real \<Rightarrow> number" where
  "toDouble x =
     (let r = roundMagnitude \<bar>x\<bar>
      in if 2 ^ 1024 \<le> r then signedInfinity (x < 0)
         else if r = 0 then signedZero (x < 0)
         else Num (if x < 0 then - r else r))"

fun isNegative :: "number \<Rightarrow> bool" where
  "isNegative (Num r) = (r < 0)"
| "isNegative NegZero = True"
| "isNegative NegInf = True"
| "isNegative PosInf = False"
| "isNegative NaN = False"

fun isZero :: "number \<Rightarrow> bool" where
  "isZero (Num r) = (r = 0)"
| "isZero NegZero = True"
| "isZero _ = False"

fun isInfinity :: "number \<Rightarrow> bool" where
  "isInfinity PosInf = True"
| "isInfinity NegInf = True"
| "isInfinity _ = False"

fun realOf :: "number \<Rightarrow> real" where
  "realOf (Num r) = r"
| "realOf _ = 0"

text \<open>
  The operator \<^verbatim>\<open><\<close>: false whenever an operand is \<^verbatim>\<open>NaN\<close>; the two zeros are
  equal.
\<close>

definition jsLess :: "number \<Rightarrow> number \<Rightarrow> bool" where
  "jsLess x y =
     (if x = NaN \<or> y = NaN then False
      else if x = PosInf \<or> y = NegInf then False
      else if x = NegInf \<or> y = PosInf then True
      else realOf x < realOf y)"

text \<open>
  The operator \<^verbatim>\<open>/\<close>: the sign of the result is the exclusive or of the signs of the
  operands; a value other than zero over a zero is an infinity, zero over zero and
  infinity over infinity are \<^verbatim>\<open>NaN\<close>.
\<close>

definition jsDiv :: "number \<Rightarrow> number \<Rightarrow> number" where
  "jsDiv x y =
     (let negative = (isNegative x \<noteq> isNegative y)
      in if x = NaN \<or> y = NaN then NaN
         else if isInfinity x then (if isInfinity y then NaN else signedInfinity negative)
         else if isInfinity y then signedZero negative
         else if isZero y then (if isZero x then NaN else signedInfinity negative)
         else if isZero x then signedZero negative
         else toDouble (realOf x / realOf y))"

text \<open>The operator \<^verbatim>\<open>*\<close>: a zero times an infinity is \<^verbatim>\<open>NaN\<close>.\<close>

definition jsMul :: "number \<Rightarrow> number \<Rightarrow> number" where
  "jsMul x y =
     (let negative = (isNegative x \<noteq> isNegative y)
      in if x = NaN \<or> y = NaN then NaN
         else if isInfinity x \<or> isInfinity y
           then (if isZero x \<or> isZero y then NaN else signedInfinity negative)
         else if isZero x \<or> isZero y then signedZero negative
         else toDouble (realOf x * realOf y))"

text \<open>
  The operator \<^verbatim>\<open>+\<close> on numbers: opposite infinities add to \<^verbatim>\<open>NaN\<close>; two zeros add
  to the negative zero only when both are negative; an exact sum of zero is the positive
  zero.
\<close>

definition jsAdd :: "number \<Rightarrow> number \<Rightarrow> number" where
  "jsAdd x y =
     (if x = NaN \<or> y = NaN then NaN
      else if isInfinity x then (if isInfinity y \<and> x \<noteq> y then NaN else x)
      else if isInfinity y then y
      else if isZero x \<and> isZero y then signedZero (isNegative x \<and> isNegative y)
      else if isZero x then y
      else if isZero y then x
      else if realOf x + realOf y = 0 then Num 0
      else toDouble (realOf x + realOf y))"

subsection \<open>Data model\<close>

text \<open>
  Modelled from the spec: the enums \<^verbatim>\<open>UoMName\<close> and \<^verbatim>\<open>UoMType\<close> are declared in
  \<^verbatim>\<open>./supporting-files/models\<close>, which is not part of the sources. The source names the
  members \<^verbatim>\<open>UoMName.grams\<close>, \<^verbatim>\<open>UoMName.millilitres\<close>, \<^verbatim>\<open>UoMType.mass\<close> and
  \<^verbatim>\<open>UoMType.volume\<close>; the spec lists the unit kinds as "mass, volume, count, ...". Every
  further member is \<open>otherName s\<close> or \<open>otherType s\<close>, \<open>s\<close> being its name.
\<close>

datatype UoMName = grams | millilitres | otherName string

datatype UoMType = mass | volume | otherType string

text \<open>The records carry the fields that \<^verbatim>\<open>main.ts\<close> reads.\<close>

record UnitOfMeasure =
  uomAmount :: number
  uomName :: UoMName
  uomType :: UoMType

record NutrientFact =
  nutrientName :: string
  quantityAmount :: UnitOfMeasure
  quantityPer :: UnitOfMeasure

record SupplierProduct =
  supplierPrice :: number
  supplierProductUoM :: UnitOfMeasure

record Product =
  supplierProducts :: "SupplierProduct list"
  nutrientFacts :: "NutrientFact list"

record Ingredient =
  ingredientName :: string

record LineItem =
  ingredient :: Ingredient
  unitOfMeasure :: UnitOfMeasure

record Recipe =
  recipeName :: string
  lineItems :: "LineItem list"

text \<open>The object \<^verbatim>\<open>{ cost, product, supplier }\<close> that \<^verbatim>\<open>findCheapestSupplier\<close> returns.\<close>

record SelectedSupplier =
  cost :: number
  product :: Product
  supplier :: SupplierProduct

subsection \<open>Errors\<close>

text \<open>
  Every \<^verbatim>\<open>throw\<close> of the source is a constructor: \<open>UnsupportedConversion\<close> is the
  \<^verbatim>\<open>Error\<close> of line 66, whose message interpolates the source kind and unit and the
  target kind and unit; \<open>NoSupplierFound\<close> is the \<^verbatim>\<open>Error\<close> of line 156, whose
  message interpolates the ingredient's name. \<open>External msg\<close> is whatever a collaborator
  threw. \<open>TypeError\<close> is the runtime's error on reading a property of \<^verbatim>\<open>undefined\<close>.
\<close>

datatype error =
    External string
  | UnsupportedConversion UoMType UoMName UoMType UoMName
  | NoSupplierFound string
  | TypeError

text \<open>
  The collaborator \<^verbatim>\<open>ConvertUnits\<close> (the direct, single-hop conversion) is given by its
  behaviour \<open>cu\<close>: the converted unit of measure, or the message of the error it throws.
\<close>

type_synonym ConvertUnitsFn =
  "UnitOfMeasure \<Rightarrow> UoMName \<Rightarrow> UoMType \<Rightarrow> string + UnitOfMeasure"

definition ConvertUnits ::
  "ConvertUnitsFn \<Rightarrow> UnitOfMeasure \<Rightarrow> UoMName \<Rightarrow> UoMType \<Rightarrow> error + UnitOfMeasure" where
  "ConvertUnits cu fromUoM toUoMName toUoMType =
     (case cu fromUoM toUoMName toUoMType of
        Inl msg \<Rightarrow> Inl (External msg)
      | Inr converted \<Rightarrow> Inr converted)"

subsection \<open>Unit conversion with fallback\<close>

definition handleVolumeToMassConversion ::
  "ConvertUnitsFn \<Rightarrow> UnitOfMeasure \<Rightarrow> UoMName \<Rightarrow> error + UnitOfMeasure" where
  "handleVolumeToMassConversion cu fromUoM toUoMName =
     (case ConvertUnits cu fromUoM millilitres volume of
        Inl e \<Rightarrow> Inl e
      | Inr volumeInMl \<Rightarrow>
          (case ConvertUnits cu volumeInMl grams mass of
             Inl e \<Rightarrow> Inl e
           | Inr massInGrams \<Rightarrow> ConvertUnits cu massInGrams toUoMName mass))"

definition handleMassToVolumeConversion ::
  "ConvertUnitsFn \<Rightarrow> UnitOfMeasure \<Rightarrow> UoMName \<Rightarrow> error + UnitOfMeasure" where
  "handleMassToVolumeConversion cu fromUoM toUoMName =
     (case ConvertUnits cu fromUoM grams mass of
        Inl e \<Rightarrow> Inl e
      | Inr massInGrams \<Rightarrow>
          (case ConvertUnits cu massInGrams millilitres volume of
             Inl e \<Rightarrow> Inl e
           | Inr volumeInMl \<Rightarrow> ConvertUnits cu volumeInMl toUoMName volume))"

text \<open>
  The \<^verbatim>\<open>try\<close> block returns the direct conversion; the \<^verbatim>\<open>catch\<close> block discards the
  caught error and chooses a fallback by the kinds of the source and the target.
\<close>

definition convertUnitsWithFallback ::
  "ConvertUnitsFn \<Rightarrow> UnitOfMeasure \<Rightarrow> UoMName \<Rightarrow> UoMType \<Rightarrow> error + UnitOfMeasure" where
  "convertUnitsWithFallback cu fromUoM toUoMName toUoMType =
     (case ConvertUnits cu fromUoM toUoMName toUoMType of
        Inr converted \<Rightarrow> Inr converted
      | Inl caught \<Rightarrow>
          if uomType fromUoM = volume \<and> toUoMType = mass
            then handleVolumeToMassConversion cu fromUoM toUoMName
          else if uomType fromUoM = mass \<and> toUoMType = volume
            then handleMassToVolumeConversion cu fromUoM toUoMName
          else Inl (UnsupportedConversion (uomType fromUoM) (uomName fromUoM)
                      toUoMType toUoMName))"

text \<open>
  The composition of three direct hops, as the specification words it: each hop is the
  direct primitive, and the first hop that fails fails the whole path with its error.
\<close>

definition andThen :: "error + 'a \<Rightarrow> ('a \<Rightarrow> error + 'b) \<Rightarrow> error + 'b" where
  "andThen r f = (case r of Inl e \<Rightarrow> Inl e | Inr x \<Rightarrow> f x)"

definition threeHops ::
  "ConvertUnitsFn \<Rightarrow> UnitOfMeasure \<Rightarrow> UoMName \<times> UoMType \<Rightarrow> UoMName \<times> UoMType \<Rightarrow>
     UoMName \<times> UoMType \<Rightarrow> error + UnitOfMeasure" where
  "threeHops cu fromUoM hop1 hop2 hop3 =
     andThen (andThen (ConvertUnits cu fromUoM (fst hop1) (snd hop1))
                (\<lambda>u. ConvertUnits cu u (fst hop2) (snd hop2)))
       (\<lambda>u. ConvertUnits cu u (fst hop3) (snd hop3))"

subsection \<open>Cost normalisation and supplier selection\<close>

definition getNormalizedCost :: "ConvertUnitsFn \<Rightarrow> SupplierProduct \<Rightarrow> error + number" where
  "getNormalizedCost cu s =
     (case convertUnitsWithFallback cu (supplierProductUoM s) grams mass of
        Inl e \<Rightarrow> Inl e
      | Inr supplierMass \<Rightarrow> Inr (jsDiv (supplierPrice s) (uomAmount supplierMass)))"

text \<open>
  The two nested \<^verbatim>\<open>for\<close> loops of \<^verbatim>\<open>findCheapestSupplier\<close> thread the pair
  \<^verbatim>\<open>(lowestNormalizedCost, selectedSupplier)\<close>. The call of \<^verbatim>\<open>getNormalizedCost\<close>
  stands in no \<^verbatim>\<open>try\<close> block: an error it throws leaves both loops and the function.
\<close>

type_synonym selection = "number \<times> SelectedSupplier option"

fun supplierLoop ::
  "ConvertUnitsFn \<Rightarrow> Product \<Rightarrow> SupplierProduct list \<Rightarrow> selection \<Rightarrow> error + selection" where
  "supplierLoop cu p [] st = Inr st"
| "supplierLoop cu p (s # rest) (lowestNormalizedCost, selectedSupplier) =
     (case getNormalizedCost cu s of
        Inl e \<Rightarrow> Inl e
      | Inr normalizedCost \<Rightarrow>
          if jsLess normalizedCost lowestNormalizedCost
          then supplierLoop cu p rest
                 (normalizedCost,
                  Some \<lparr>cost = normalizedCost, product = p, supplier = s\<rparr>)
          else supplierLoop cu p rest (lowestNormalizedCost, selectedSupplier))"

fun productLoop :: "ConvertUnitsFn \<Rightarrow> Product list \<Rightarrow> selection \<Rightarrow> error + selection" where
  "productLoop cu [] st = Inr st"
| "productLoop cu (p # rest) st =
     (case supplierLoop cu p (supplierProducts p) st of
        Inl e \<Rightarrow> Inl e
      | Inr st' \<Rightarrow> productLoop cu rest st')"

definition findCheapestSupplier ::
  "ConvertUnitsFn \<Rightarrow> Ingredient \<Rightarrow> Product list \<Rightarrow> error + SelectedSupplier" where
  "findCheapestSupplier cu ingr availableProducts =
     (case productLoop cu availableProducts (PosInf, None) of
        Inl e \<Rightarrow> Inl e
      | Inr (lowestNormalizedCost, None) \<Rightarrow> Inl (NoSupplierFound (ingredientName ingr))
      | Inr (lowestNormalizedCost, Some selectedSupplier) \<Rightarrow> Inr selectedSupplier)"

text \<open>
  The suppliers in the order the loops visit them, each with its product and its
  position: products in list order, the suppliers of one product in list order.
\<close>

definition suppliersInOrder :: "Product list \<Rightarrow> (Product \<times> SupplierProduct) list" where
  "suppliersInOrder ps = concat (map (\<lambda>p. map (\<lambda>s. (p, s)) (supplierProducts p)) ps)"

text \<open>
  The same loop body over that one list: a device of the proofs, which show that the
  nested loops of the source compute what this single loop computes.
\<close>

fun pairLoop ::
  "ConvertUnitsFn \<Rightarrow> (Product \<times> SupplierProduct) list \<Rightarrow> selection \<Rightarrow> error + selection" where
  "pairLoop cu [] st = Inr st"
| "pairLoop cu ((p, s) # rest) (lowestNormalizedCost, selectedSupplier) =
     (case getNormalizedCost cu s of
        Inl e \<Rightarrow> Inl e
      | Inr normalizedCost \<Rightarrow>
          if jsLess normalizedCost lowestNormalizedCost
          then pairLoop cu rest
                 (normalizedCost,
                  Some \<lparr>cost = normalizedCost, product = p, supplier = s\<rparr>)
          else pairLoop cu rest (lowestNormalizedCost, selectedSupplier))"

subsection \<open>The effects of a call\<close>

text \<open>
  The functions of lines 47 to 125 once more, with the effects of a call explicit. The
  collaborator \<^verbatim>\<open>ConvertUnits\<close> is code outside \<^verbatim>\<open>main.ts\<close>: a call of it may read
  and change a world \<open>'w\<close> (module state, the console), and returns its result or
  throws, together with the world it leaves. The statements of lines 47 to 125 declare
  constants, read properties, call, return and throw; none assigns to a variable or to a
  property. So each function hands the world from one call of the collaborator to the
  next, in the order of the calls, and hands the last one to its caller, also when it
  throws. Units of measure are values, as everywhere in this development.
\<close>

type_synonym 'w ConvertUnitsEffect =
  "UnitOfMeasure \<Rightarrow> UoMName \<Rightarrow> UoMType \<Rightarrow> 'w \<Rightarrow> (string + UnitOfMeasure) \<times> 'w"

definition ConvertUnitsEff ::
  "'w ConvertUnitsEffect \<Rightarrow> UnitOfMeasure \<Rightarrow> UoMName \<Rightarrow> UoMType \<Rightarrow> 'w \<Rightarrow>
     (error + UnitOfMeasure) \<times> 'w" where
  "ConvertUnitsEff cu fromUoM toUoMName toUoMType w =
     (case cu fromUoM toUoMName toUoMType w of
        (Inl msg, w') \<Rightarrow> (Inl (External msg), w')
      | (Inr converted, w') \<Rightarrow> (Inr converted, w'))"

definition handleVolumeToMassConversionEff ::
  "'w ConvertUnitsEffect \<Rightarrow> UnitOfMeasure \<Rightarrow> UoMName \<Rightarrow> 'w \<Rightarrow> (error + UnitOfMeasure) \<times> 'w" where
  "handleVolumeToMassConversionEff cu fromUoM toUoMName w =
     (case ConvertUnitsEff cu fromUoM millilitres volume w of
        (Inl e, w1) \<Rightarrow> (Inl e, w1)
      | (Inr volumeInMl, w1) \<Rightarrow>
          (case ConvertUnitsEff cu volumeInMl grams mass w1 of
             (Inl e, w2) \<Rightarrow> (Inl e, w2)
           | (Inr massInGrams, w2) \<Rightarrow> ConvertUnitsEff cu massInGrams toUoMName mass w2))"

definition handleMassToVolumeConversionEff ::
  "'w ConvertUnitsEffect \<Rightarrow> UnitOfMeasure \<Rightarrow> UoMName \<Rightarrow> 'w \<Rightarrow> (error + UnitOfMeasure) \<times> 'w" where
  "handleMassToVolumeConversionEff cu fromUoM toUoMName w =
     (case ConvertUnitsEff cu fromUoM grams mass w of
        (Inl e, w1) \<Rightarrow> (Inl e, w1)
      | (Inr massInGrams, w1) \<Rightarrow>
          (case ConvertUnitsEff cu massInGrams millilitres volume w1 of
             (Inl e, w2) \<Rightarrow> (Inl e, w2)
           | (Inr volumeInMl, w2) \<Rightarrow> ConvertUnitsEff cu volumeInMl toUoMName volume w2))"

definition convertUnitsWithFallbackEff ::
  "'w ConvertUnitsEffect \<Rightarrow> UnitOfMeasure \<Rightarrow> UoMName \<Rightarrow> UoMType \<Rightarrow> 'w \<Rightarrow>
     (error + UnitOfMeasure) \<times> 'w" where
  "convertUnitsWithFallbackEff cu fromUoM toUoMName toUoMType w =
     (case ConvertUnitsEff cu fromUoM toUoMName toUoMType w of
        (Inr converted, w') \<Rightarrow> (Inr converted, w')
      | (Inl caught, w') \<Rightarrow>
          if uomType fromUoM = volume \<and> toUoMType = mass
            then handleVolumeToMassConversionEff cu fromUoM toUoMName w'
          else if uomType fromUoM = mass \<and> toUoMType = volume
            then handleMassToVolumeConversionEff cu fromUoM toUoMName w'
          else (Inl (UnsupportedConversion (uomType fromUoM) (uomName fromUoM)
                       toUoMType toUoMName), w'))"

definition getNormalizedCostEff ::
  "'w ConvertUnitsEffect \<Rightarrow> SupplierProduct \<Rightarrow> 'w \<Rightarrow> (error + number) \<times> 'w" where
  "getNormalizedCostEff cu s w =
     (case convertUnitsWithFallbackEff cu (supplierProductUoM s) grams mass w of
        (Inl e, w') \<Rightarrow> (Inl e, w')
      | (Inr supplierMass, w') \<Rightarrow>
          (Inr (jsDiv (supplierPrice s) (uomAmount supplierMass)), w'))"

subsection \<open>Objects used as dictionaries\<close>

text \<open>
  \<^verbatim>\<open>nutrientMap\<close>, \<^verbatim>\<open>orderedNutrientMap\<close> and \<^verbatim>\<open>summary\<close> are plain objects
  keyed by strings. An object is the list of its own properties in the order in which
  \<^verbatim>\<open>Object.keys\<close> and \<^verbatim>\<open>for ... in\<close> enumerate them (ECMAScript,
  OrdinaryOwnPropertyKeys): first the keys that are array indices, ascending by numeric
  value, then every other key in the order of its first assignment. An array index is the
  canonical decimal numeral of an integer from 0 to 4294967294. Characters are the 8-bit
  code units of \<open>string\<close>; the order on strings is the lexicographic order on code
  units, which is the order of the default \<^verbatim>\<open>Array.prototype.sort\<close>.
\<close>

type_synonym 'v jsobject = "(string \<times> 'v) list"

definition isDigit :: "char \<Rightarrow> bool" where
  "isDigit c = (CHR ''0'' \<le> c \<and> c \<le> CHR ''9'')"

definition decimalValue :: "string \<Rightarrow> int" where
  "decimalValue s = foldl (\<lambda>n c. 10 * n + (of_char c - 48)) 0 s"

definition isArrayIndex :: "string \<Rightarrow> bool" where
  "isArrayIndex s =
     (s \<noteq> [] \<and> list_all isDigit s \<and> (hd s \<noteq> CHR ''0'' \<or> s = ''0'') \<and>
      decimalValue s < 4294967295)"

definition objGet :: "string \<Rightarrow> 'v jsobject \<Rightarrow> 'v option" where
  "objGet k obj = map_of obj k"

definition objKeys :: "'v jsobject \<Rightarrow> string list" where
  "objKeys obj = map fst obj"

fun replaceValue :: "string \<Rightarrow> 'v \<Rightarrow> 'v jsobject \<Rightarrow> 'v jsobject" where
  "replaceValue k v [] = []"
| "replaceValue k v ((k', v') # rest) =
     (if k' = k then (k, v) # rest else (k', v') # replaceValue k v rest)"

fun insertIndexKey :: "string \<Rightarrow> 'v \<Rightarrow> 'v jsobject \<Rightarrow> 'v jsobject" where
  "insertIndexKey k v [] = [(k, v)]"
| "insertIndexKey k v ((k', v') # rest) =
     (if isArrayIndex k' \<and> decimalValue k' < decimalValue k
      then (k', v') # insertIndexKey k v rest
      else (k, v) # (k', v') # rest)"

text \<open>
  The assignment \<^verbatim>\<open>obj[k] = v\<close> on a plain object: an own property keeps its place
  and takes the value. Otherwise the name \<^verbatim>\<open>__proto__\<close> finds the setter that every
  plain object inherits from \<^verbatim>\<open>Object.prototype\<close>: the assignment calls it, which
  sets the prototype of the object and creates no own property, so the own properties
  (what \<^verbatim>\<open>Object.keys\<close>, \<^verbatim>\<open>Object.assign\<close> and a comparison of the own
  properties see) stay as they are. Any other new name becomes an own property: an array
  index goes among the array indices, every other key goes last.
\<close>

definition objSet :: "string \<Rightarrow> 'v \<Rightarrow> 'v jsobject \<Rightarrow> 'v jsobject" where
  "objSet k v obj =
     (if k \<in> set (objKeys obj) then replaceValue k v obj
      else if k = ''__proto__'' then obj
      else if isArrayIndex k then insertIndexKey k v obj
      else obj @ [(k, v)])"

text \<open>
  A read \<^verbatim>\<open>nutrientMap[k]\<close> of a name that is no own property finds the members that
  every plain object inherits from \<^verbatim>\<open>Object.prototype\<close>; all of them are truthy, and
  none has a property \<^verbatim>\<open>quantityAmount\<close>.
\<close>

definition inheritedNames :: "string list" where
  "inheritedNames =
     [''constructor'', ''__defineGetter__'', ''__defineSetter__'', ''hasOwnProperty'',
      ''__lookupGetter__'', ''__lookupSetter__'', ''isPrototypeOf'',
      ''propertyIsEnumerable'', ''toString'', ''valueOf'', ''__proto__'',
      ''toLocaleString'']"

subsection \<open>Nutrient accumulation\<close>

text \<open>
  The collaborator \<^verbatim>\<open>GetNutrientFactInBaseUnits\<close> is given by its behaviour \<open>tb\<close>:
  the fact in base units, or the message of the error it throws.
\<close>

type_synonym BaseUnitsFn = "NutrientFact \<Rightarrow> string + NutrientFact"

definition GetNutrientFactInBaseUnits :: "BaseUnitsFn \<Rightarrow> NutrientFact \<Rightarrow> error + NutrientFact" where
  "GetNutrientFactInBaseUnits tb nutrientFact =
     (case tb nutrientFact of Inl msg \<Rightarrow> Inl (External msg) | Inr baseFact \<Rightarrow> Inr baseFact)"

text \<open>The entry that lines 193 to 201 create for a nutrient name seen for the first time.\<close>

definition initialEntry :: "NutrientFact \<Rightarrow> NutrientFact" where
  "initialEntry baseFact =
     \<lparr>nutrientName = nutrientName baseFact,
      quantityAmount =
        \<lparr>uomAmount = Num 0,
         uomName = uomName (quantityAmount baseFact),
         uomType = uomType (quantityAmount baseFact)\<rparr>,
      quantityPer = quantityPer baseFact\<rparr>"

text \<open>The value \<^verbatim>\<open>normalizedValue\<close> of lines 211 to 218.\<close>

definition normalizedValue :: "NutrientFact \<Rightarrow> number \<Rightarrow> number \<Rightarrow> number" where
  "normalizedValue baseFact ingredientAmountInBaseUnit normalizedAmount =
     (let nutrientPerBaseUnit =
            jsDiv (uomAmount (quantityAmount baseFact)) (uomAmount (quantityPer baseFact));
          totalNutrientAmount = jsMul nutrientPerBaseUnit ingredientAmountInBaseUnit
      in jsMul (jsDiv totalNutrientAmount normalizedAmount) (uomAmount (quantityPer baseFact)))"

text \<open>
  One iteration of the loop over the nutrient facts, on the map it mutates. The
  statement of line 221 reads \<^verbatim>\<open>nutrientMap[name].quantityAmount.uomAmount\<close>: for
  an inherited name the read of \<^verbatim>\<open>uomAmount\<close> on \<^verbatim>\<open>undefined\<close> throws.
\<close>

definition addNutrientFact ::
  "ConvertUnitsFn \<Rightarrow> BaseUnitsFn \<Rightarrow> UnitOfMeasure \<Rightarrow> number \<Rightarrow> NutrientFact \<Rightarrow>
     NutrientFact jsobject \<Rightarrow> error + NutrientFact jsobject" where
  "addNutrientFact cu tb requiredUoM normalizedAmount nutrientFact nutrientMap =
     (case GetNutrientFactInBaseUnits tb nutrientFact of
        Inl e \<Rightarrow> Inl e
      | Inr baseFact \<Rightarrow>
          let name = nutrientName baseFact;
              initialised =
                (if name \<in> set inheritedNames \<or> objGet name nutrientMap \<noteq> None
                 then nutrientMap
                 else objSet name (initialEntry baseFact) nutrientMap)
          in (case convertUnitsWithFallback cu requiredUoM
                     (uomName (quantityPer baseFact)) (uomType (quantityPer baseFact)) of
                Inl e \<Rightarrow> Inl e
              | Inr converted \<Rightarrow>
                  (case objGet name initialised of
                     None \<Rightarrow> Inl TypeError
                   | Some entry \<Rightarrow>
                       Inr (objSet name
                              (entry\<lparr>quantityAmount :=
                                 (quantityAmount entry)\<lparr>uomAmount :=
                                    jsAdd (uomAmount (quantityAmount entry))
                                      (normalizedValue baseFact (uomAmount converted)
                                         normalizedAmount)\<rparr>\<rparr>)
                              initialised))))"

fun nutrientLoop ::
  "ConvertUnitsFn \<Rightarrow> BaseUnitsFn \<Rightarrow> UnitOfMeasure \<Rightarrow> number \<Rightarrow> NutrientFact list \<Rightarrow>
     NutrientFact jsobject \<Rightarrow> error + NutrientFact jsobject" where
  "nutrientLoop cu tb requiredUoM normalizedAmount [] nutrientMap = Inr nutrientMap"
| "nutrientLoop cu tb requiredUoM normalizedAmount (nutrientFact # rest) nutrientMap =
     (case addNutrientFact cu tb requiredUoM normalizedAmount nutrientFact nutrientMap of
        Inl e \<Rightarrow> Inl e
      | Inr nutrientMap' \<Rightarrow> nutrientLoop cu tb requiredUoM normalizedAmount rest nutrientMap')"

text \<open>
  \<^verbatim>\<open>calculateNutrientContribution\<close> returns the cost and, here, the map it has
  mutated. When it throws, no caller in the program catches the error, so the partly
  updated map is never read again.
\<close>

definition calculateNutrientContribution ::
  "ConvertUnitsFn \<Rightarrow> BaseUnitsFn \<Rightarrow> UnitOfMeasure \<Rightarrow> SelectedSupplier \<Rightarrow>
     NutrientFact jsobject \<Rightarrow> error + (number \<times> NutrientFact jsobject)" where
  "calculateNutrientContribution cu tb requiredUoM selectedSupplier nutrientMap =
     (case convertUnitsWithFallback cu requiredUoM grams mass of
        Inl e \<Rightarrow> Inl e
      | Inr inGrams \<Rightarrow>
          let normalizedAmount = uomAmount inGrams
          in (case nutrientLoop cu tb requiredUoM normalizedAmount
                     (nutrientFacts (product selectedSupplier)) nutrientMap of
                Inl e \<Rightarrow> Inl e
              | Inr nutrientMap' \<Rightarrow>
                  Inr (jsMul normalizedAmount (cost selectedSupplier), nutrientMap')))"

text \<open>
  The accumulation as the specification words it, for the statement of the property:
  the amount stored for a nutrient name (zero when the map has no entry), the
  contribution of one nutrient fact of the selected product (steps 2a to 2f of the
  specification: the name of the fact in base units, and the value
  \<open>(totalNutrientForIngredient / normalizedMassGrams) * quantityPer.amount\<close>), and the
  contributions to one name, in the order of the facts.
\<close>

definition entryAmount :: "string \<Rightarrow> NutrientFact jsobject \<Rightarrow> number" where
  "entryAmount k nutrientMap =
     (case objGet k nutrientMap of
        None \<Rightarrow> Num 0
      | Some entry \<Rightarrow> uomAmount (quantityAmount entry))"

definition contributionOf ::
  "ConvertUnitsFn \<Rightarrow> BaseUnitsFn \<Rightarrow> UnitOfMeasure \<Rightarrow> number \<Rightarrow> NutrientFact \<Rightarrow>
     (string \<times> number) option" where
  "contributionOf cu tb requiredUoM normalizedMassGrams nutrientFact =
     (case tb nutrientFact of
        Inl msg \<Rightarrow> None
      | Inr baseFact \<Rightarrow>
          (case convertUnitsWithFallback cu requiredUoM
                  (uomName (quantityPer baseFact)) (uomType (quantityPer baseFact)) of
             Inl e \<Rightarrow> None
           | Inr inFactUnits \<Rightarrow>
               let totalNutrientForIngredient =
                     jsMul (jsDiv (uomAmount (quantityAmount baseFact))
                              (uomAmount (quantityPer baseFact)))
                       (uomAmount inFactUnits)
               in Some (nutrientName baseFact,
                        jsMul (jsDiv totalNutrientForIngredient normalizedMassGrams)
                          (uomAmount (quantityPer baseFact)))))"

definition contributionsTo ::
  "string \<Rightarrow> ConvertUnitsFn \<Rightarrow> BaseUnitsFn \<Rightarrow> UnitOfMeasure \<Rightarrow> number \<Rightarrow>
     NutrientFact list \<Rightarrow> number list" where
  "contributionsTo k cu tb requiredUoM normalizedMassGrams facts =
     map snd (filter (\<lambda>c. fst c = k)
       (List.map_filter (contributionOf cu tb requiredUoM normalizedMassGrams) facts))"

subsection \<open>Recipe summary\<close>

text \<open>
  \<^verbatim>\<open>Object.keys(nutrientMap).sort().forEach(...)\<close>: the keys in ascending string
  order, each assigned to the new object in turn. Every key is an own property, so the
  read \<^verbatim>\<open>nutrientMap[nutrientName]\<close> finds its value.
\<close>

definition sortNutrientsAlphabetically :: "NutrientFact jsobject \<Rightarrow> NutrientFact jsobject" where
  "sortNutrientsAlphabetically nutrientMap =
     foldl (\<lambda>orderedNutrientMap name.
              case objGet name nutrientMap of
                None \<Rightarrow> orderedNutrientMap
              | Some nutrientFact \<Rightarrow> objSet name nutrientFact orderedNutrientMap)
       [] (sort (objKeys nutrientMap))"

record RecipeSummary =
  cheapestCost :: number
  nutrientsAtCheapestCost :: "NutrientFact jsobject"

text \<open>
  The collaborator \<^verbatim>\<open>GetProductsForIngredient\<close> is given by its behaviour \<open>gp\<close>: the
  candidate products, or the message of the error it throws.
\<close>

type_synonym ProductsFn = "Ingredient \<Rightarrow> string + Product list"

definition GetProductsForIngredient :: "ProductsFn \<Rightarrow> Ingredient \<Rightarrow> error + Product list" where
  "GetProductsForIngredient gp ingr =
     (case gp ingr of Inl msg \<Rightarrow> Inl (External msg) | Inr products \<Rightarrow> Inr products)"

text \<open>The inner loop of \<^verbatim>\<open>calculateRecipeSummary\<close>, over the line items of one recipe.\<close>

fun lineItemLoop ::
  "ConvertUnitsFn \<Rightarrow> BaseUnitsFn \<Rightarrow> ProductsFn \<Rightarrow> LineItem list \<Rightarrow>
     number \<times> NutrientFact jsobject \<Rightarrow> error + (number \<times> NutrientFact jsobject)" where
  "lineItemLoop cu tb gp [] st = Inr st"
| "lineItemLoop cu tb gp (lineItem # rest) (totalCost, nutrientMap) =
     (case GetProductsForIngredient gp (ingredient lineItem) of
        Inl e \<Rightarrow> Inl e
      | Inr availableProducts \<Rightarrow>
          (case findCheapestSupplier cu (ingredient lineItem) availableProducts of
             Inl e \<Rightarrow> Inl e
           | Inr selectedSupplier \<Rightarrow>
               (case calculateNutrientContribution cu tb (unitOfMeasure lineItem)
                       selectedSupplier nutrientMap of
                  Inl e \<Rightarrow> Inl e
                | Inr (ingredientCost, nutrientMap') \<Rightarrow>
                    lineItemLoop cu tb gp rest
                      (jsAdd totalCost ingredientCost, nutrientMap'))))"

text \<open>
  The body of the outer loop for one recipe, up to the sorted map: the value stored
  under the recipe's name.
\<close>

definition summarizeRecipe ::
  "ConvertUnitsFn \<Rightarrow> BaseUnitsFn \<Rightarrow> ProductsFn \<Rightarrow> Recipe \<Rightarrow> error + RecipeSummary" where
  "summarizeRecipe cu tb gp recipe =
     (case lineItemLoop cu tb gp (lineItems recipe) (Num 0, []) of
        Inl e \<Rightarrow> Inl e
      | Inr (totalCost, nutrientMap) \<Rightarrow>
          Inr \<lparr>cheapestCost = totalCost,
               nutrientsAtCheapestCost = sortNutrientsAlphabetically nutrientMap\<rparr>)"

text \<open>
  The outer loop, on the object \<^verbatim>\<open>summary\<close>. No \<^verbatim>\<open>try\<close> block stands in
  \<^verbatim>\<open>calculateRecipeSummary\<close>: an error leaves the loop and the function, and the
  object built so far is not returned.
\<close>

fun recipeLoop ::
  "ConvertUnitsFn \<Rightarrow> BaseUnitsFn \<Rightarrow> ProductsFn \<Rightarrow> Recipe list \<Rightarrow>
     RecipeSummary jsobject \<Rightarrow> error + RecipeSummary jsobject" where
  "recipeLoop cu tb gp [] summary = Inr summary"
| "recipeLoop cu tb gp (recipe # rest) summary =
     (case summarizeRecipe cu tb gp recipe of
        Inl e \<Rightarrow> Inl e
      | Inr entry \<Rightarrow> recipeLoop cu tb gp rest (objSet (recipeName recipe) entry summary))"

definition calculateRecipeSummary ::
  "ConvertUnitsFn \<Rightarrow> BaseUnitsFn \<Rightarrow> ProductsFn \<Rightarrow> Recipe list \<Rightarrow>
     error + RecipeSummary jsobject" where
  "calculateRecipeSummary cu tb gp recipes = recipeLoop cu tb gp recipes []"

subsection \<open>Example data\<close>

text \<open>
  A conversion table in the manner the specification describes the direct primitive: a
  unit converts to itself, the listed pairs convert by their rate, and every other pair
  fails with an error that names the pair. Cups and kilograms have no direct entry, so a
  conversion between them takes the fallback.
\<close>

definition showName :: "UoMName \<Rightarrow> string" where
  "showName n = (case n of grams \<Rightarrow> ''grams'' | millilitres \<Rightarrow> ''millilitres'' | otherName s \<Rightarrow> s)"

definition tableConvertUnits :: "((UoMName \<times> UoMName) \<times> number) list \<Rightarrow> ConvertUnitsFn" where
  "tableConvertUnits rates fromUoM toUoMName toUoMType =
     (if uomName fromUoM = toUoMName \<and> uomType fromUoM = toUoMType then Inr fromUoM
      else case map_of rates (uomName fromUoM, toUoMName) of
             None \<Rightarrow>
               Inl (''Cannot convert '' @ showName (uomName fromUoM) @ '' to '' @
                    showName toUoMName)
           | Some rate \<Rightarrow>
               Inr \<lparr>uomAmount = jsMul (uomAmount fromUoM) rate,
                    uomName = toUoMName, uomType = toUoMType\<rparr>)"

definition exampleRates :: "((UoMName \<times> UoMName) \<times> number) list" where
  "exampleRates =
     [((otherName ''cups'', millilitres), Num 250),
      ((millilitres, otherName ''cups''), jsDiv (Num 1) (Num 250)),
      ((millilitres, grams), Num 1),
      ((grams, millilitres), Num 1),
      ((grams, otherName ''kilogram''), jsDiv (Num 1) (Num 1000)),
      ((otherName ''kilogram'', grams), Num 1000)]"

definition exampleConvertUnits :: ConvertUnitsFn where
  "exampleConvertUnits = tableConvertUnits exampleRates"

definition amountOf :: "real \<Rightarrow> UoMName \<Rightarrow> UoMType \<Rightarrow> UnitOfMeasure" where
  "amountOf a n t = \<lparr>uomAmount = Num a, uomName = n, uomType = t\<rparr>"

text \<open>
  Supplier products over the example table: A costs 0.003 per gram, B (quoted per
  kilogram) and C cost 0.002 per gram, D costs 0.005 per gram; the unit of
  \<open>supplierPints\<close> converts to nothing, and \<open>supplierZero\<close> quotes a price for zero
  grams. \<open>selling\<close> is a product sold by the given suppliers.
\<close>

definition supplierA :: SupplierProduct where
  "supplierA = \<lparr>supplierPrice = Num 3, supplierProductUoM = amountOf 1000 grams mass\<rparr>"

definition supplierB :: SupplierProduct where
  "supplierB =
     \<lparr>supplierPrice = Num 2, supplierProductUoM = amountOf 1 (otherName ''kilogram'') mass\<rparr>"

definition supplierC :: SupplierProduct where
  "supplierC = \<lparr>supplierPrice = Num 1, supplierProductUoM = amountOf 500 grams mass\<rparr>"

definition supplierD :: SupplierProduct where
  "supplierD = \<lparr>supplierPrice = Num 5, supplierProductUoM = amountOf 1000 grams mass\<rparr>"

definition supplierPints :: SupplierProduct where
  "supplierPints =
     \<lparr>supplierPrice = Num 5, supplierProductUoM = amountOf 3 (otherName ''pints'') volume\<rparr>"

definition supplierZero :: SupplierProduct where
  "supplierZero = \<lparr>supplierPrice = Num 2, supplierProductUoM = amountOf 0 grams mass\<rparr>"

definition selling :: "SupplierProduct list \<Rightarrow> Product" where
  "selling suppliers = \<lparr>supplierProducts = suppliers, nutrientFacts = []\<rparr>"

text \<open>
  A collaborator with an effect: it converts by the example table and counts its calls.
\<close>

definition countingConvertUnits :: "nat ConvertUnitsEffect" where
  "countingConvertUnits fromUoM toUoMName toUoMType calls =
     (exampleConvertUnits fromUoM toUoMName toUoMType, Suc calls)"

text \<open>
  The end-to-end scenario of the specification: one recipe with one line item of 500 g,
  one candidate product with one supplier at 2.00 per 1000 g and the nutrient fact
  "10 g protein per 100 g". \<open>scenarioFact a\<close> is the entry "a g protein per 100 g".
\<close>

definition scenarioSupplier :: SupplierProduct where
  "scenarioSupplier = \<lparr>supplierPrice = Num 2, supplierProductUoM = amountOf 1000 grams mass\<rparr>"

definition scenarioFact :: "real \<Rightarrow> NutrientFact" where
  "scenarioFact a =
     \<lparr>nutrientName = ''Protein'', quantityAmount = amountOf a grams mass,
      quantityPer = amountOf 100 grams mass\<rparr>"

definition scenarioProduct :: Product where
  "scenarioProduct =
     \<lparr>supplierProducts = [scenarioSupplier], nutrientFacts = [scenarioFact 10]\<rparr>"

definition scenarioRecipe :: Recipe where
  "scenarioRecipe =
     \<lparr>recipeName = ''Shake'',
      lineItems = [\<lparr>ingredient = \<lparr>ingredientName = ''Whey''\<rparr>,
                    unitOfMeasure = amountOf 500 grams mass\<rparr>]\<rparr>"

text \<open>
  A product with two protein facts and a sodium fact whose basis is a volume, for the
  accumulation into a map that already holds protein.
\<close>

definition sodiumFact :: "real \<Rightarrow> NutrientFact" where
  "sodiumFact a =
     \<lparr>nutrientName = ''Sodium'', quantityAmount = amountOf a grams mass,
      quantityPer = amountOf 100 millilitres volume\<rparr>"

definition mixProduct :: Product where
  "mixProduct =
     \<lparr>supplierProducts = [supplierC],
      nutrientFacts = [scenarioFact 10, sodiumFact 3, scenarioFact 2]\<rparr>"

text \<open>
  A data source that knows products for whey only, a recipe whose ingredient it does not
  know, and nutrient facts of 1 g per 100 g under a given name: a product whose facts are
  named by decimal numerals, and a product with a fact named as a member of
  \<^verbatim>\<open>Object.prototype\<close> is.
\<close>

definition pantry :: ProductsFn where
  "pantry ingr = (if ingredientName ingr = ''Whey'' then Inr [scenarioProduct] else Inr [])"

definition paella :: Recipe where
  "paella =
     \<lparr>recipeName = ''Paella'',
      lineItems = [\<lparr>ingredient = \<lparr>ingredientName = ''Saffron''\<rparr>,
                    unitOfMeasure = amountOf 1 grams mass\<rparr>]\<rparr>"

definition numberedFact :: "string \<Rightarrow> NutrientFact" where
  "numberedFact name =
     \<lparr>nutrientName = name, quantityAmount = amountOf 1 grams mass,
      quantityPer = amountOf 100 grams mass\<rparr>"

definition numberedProduct :: Product where
  "numberedProduct =
     \<lparr>supplierProducts = [scenarioSupplier],
      nutrientFacts = [numberedFact ''10'', numberedFact ''9'']\<rparr>"

definition constructorProduct :: Product where
  "constructorProduct =
     \<lparr>supplierProducts = [scenarioSupplier],
      nutrientFacts = [numberedFact ''constructor'']\<rparr>"

section \<open>Properties\<close>

subsection \<open>Arithmetic on doubles\<close>

lemmas double_eval =
  toDouble_def roundMagnitude_def floorLog2_def roundHalfEven_def pow2_def signedZero_def
  signedInfinity_def Let_def compute_bitlen

lemma pow2_pos: "0 < pow2 e"
  by (simp add: pow2_def)

lemma pow2_powr: "pow2 e = 2 powr (of_int e)"
  by (auto simp: pow2_def powr_realpow [symmetric] powr_minus divide_inverse)

lemma pow2_add: "pow2 (a + b) = pow2 a * pow2 b"
  by (simp add: pow2_powr powr_add)

lemma pow2_mono: "a \<le> b \<Longrightarrow> pow2 a \<le> pow2 b"
  by (simp add: pow2_powr)

text \<open>
  \<open>floorLog2 a\<close> is the exponent of the leading bit of a positive \<open>a\<close>.
\<close>

lemma floorLog2_bounds:
  assumes "0 < a"
  shows "pow2 (floorLog2 a) \<le> a" and "a < pow2 (floorLog2 a + 1)"
proof -
  have "pow2 (floorLog2 a) \<le> a \<and> a < pow2 (floorLog2 a + 1)"
  proof (cases "1 \<le> a")
    case True
    then have n: "0 < \<lfloor>a\<rfloor>" by linarith
    from bitlen_bounds [OF n] have low: "2 ^ nat (bitlen \<lfloor>a\<rfloor> - 1) \<le> \<lfloor>a\<rfloor>"
      and high: "\<lfloor>a\<rfloor> + 1 \<le> 2 ^ nat (bitlen \<lfloor>a\<rfloor>)"
      by simp_all
    from n have positive: "1 \<le> bitlen \<lfloor>a\<rfloor>"
      using bitlen_eq_zero_iff [of "\<lfloor>a\<rfloor>"] bitlen_nonneg [of "\<lfloor>a\<rfloor>"] by linarith
    from low have "(2::real) ^ nat (bitlen \<lfloor>a\<rfloor> - 1) \<le> of_int \<lfloor>a\<rfloor>"
      by (metis of_int_le_iff of_int_numeral of_int_power)
    also have "\<dots> \<le> a" by simp
    finally have a: "(2::real) ^ nat (bitlen \<lfloor>a\<rfloor> - 1) \<le> a" .
    have "a < of_int (\<lfloor>a\<rfloor> + 1)" by linarith
    also from high have "\<dots> \<le> (2::real) ^ nat (bitlen \<lfloor>a\<rfloor>)"
      by (metis of_int_le_iff of_int_numeral of_int_power)
    finally have b: "a < (2::real) ^ nat (bitlen \<lfloor>a\<rfloor>)" .
    from True positive a b show ?thesis
      by (simp add: floorLog2_def pow2_def)
  next
    case False
    define m where "m = \<lceil>1 / a\<rceil> - 1"
    from False assms have "1 < 1 / a" by simp
    then have m: "0 < m" unfolding m_def by linarith
    have below: "of_int m < 1 / a" and above: "1 / a \<le> of_int (m + 1)"
      unfolding m_def by linarith+
    from bitlen_bounds [OF m] have low: "2 ^ nat (bitlen m - 1) \<le> m"
      and high: "m + 1 \<le> 2 ^ nat (bitlen m)"
      by simp_all
    from m have positive: "1 \<le> bitlen m"
      using bitlen_eq_zero_iff [of m] bitlen_nonneg [of m] by linarith
    from high have "of_int (m + 1) \<le> (2::real) ^ nat (bitlen m)"
      by (metis of_int_le_iff of_int_numeral of_int_power)
    with above have "1 / a \<le> (2::real) ^ nat (bitlen m)" by linarith
    with assms have a: "1 / 2 ^ nat (bitlen m) \<le> a"
      by (simp add: field_simps)
    from low have "(2::real) ^ nat (bitlen m - 1) \<le> of_int m"
      by (metis of_int_le_iff of_int_numeral of_int_power)
    with below have "(2::real) ^ nat (bitlen m - 1) < 1 / a" by linarith
    with assms have b: "a < 1 / 2 ^ nat (bitlen m - 1)"
      by (simp add: field_simps)
    have c: "nat (- (1 - bitlen m)) = nat (bitlen m - 1)" by simp
    from False positive a b show ?thesis
      by (auto simp: floorLog2_def pow2_def m_def [symmetric] c)
  qed
  then show "pow2 (floorLog2 a) \<le> a" and "a < pow2 (floorLog2 a + 1)"
    by simp_all
qed

text \<open>
  The rounded value is within half a unit in the last place of the argument, hence
  within the relative error \<open>2 ^ -53\<close> for an argument of magnitude \<open>2 ^ -1022\<close> or
  more; and it is a double: an integer of magnitude at most \<open>2 ^ 53\<close> times a power of
  two with an exponent from -1074 to 971.
\<close>

lemma roundHalfEven_near: "\<bar>of_int (roundHalfEven y) - y\<bar> \<le> 1 / 2"
  unfolding roundHalfEven_def Let_def by (auto simp: abs_if) linarith+

lemma roundMagnitude_near:
  "\<bar>roundMagnitude a - a\<bar> \<le> pow2 (max (floorLog2 a) (- 1022) - 52) / 2"
proof -
  define ulp where "ulp = pow2 (max (floorLog2 a) (- 1022) - 52)"
  have ulp: "0 < ulp" by (simp add: ulp_def pow2_pos)
  have "roundMagnitude a - a = (of_int (roundHalfEven (a / ulp)) - a / ulp) * ulp"
    using ulp by (simp add: roundMagnitude_def Let_def ulp_def [symmetric] field_simps)
  then have "\<bar>roundMagnitude a - a\<bar> = \<bar>of_int (roundHalfEven (a / ulp)) - a / ulp\<bar> * ulp"
    using ulp by (simp add: abs_mult)
  also have "\<dots> \<le> 1 / 2 * ulp"
    using roundHalfEven_near [of "a / ulp"] ulp by (intro mult_right_mono) simp_all
  finally show ?thesis by (simp add: ulp_def)
qed

lemma toDouble_near:
  assumes "toDouble x = Num r"
  shows "abs (r - x) \<le> pow2 (max (floorLog2 (abs x)) (- 1022) - 52) / 2"
proof -
  from assms have "r = (if x < 0 then - roundMagnitude (abs x) else roundMagnitude (abs x))"
    by (auto simp: toDouble_def Let_def signedInfinity_def signedZero_def split: if_splits)
  then have "abs (r - x) = abs (roundMagnitude (abs x) - abs x)"
    by (auto simp: abs_if)
  with roundMagnitude_near [of "abs x"] show ?thesis by simp
qed

lemma toDouble_relative:
  assumes "toDouble x = Num r" and "pow2 (- 1022) \<le> abs x"
  shows "abs (r - x) \<le> abs x / 2 ^ 53"
proof -
  define p where "p = pow2 (max (floorLog2 (abs x)) (- 1022))"
  from assms(2) have pos: "0 < abs x"
    using pow2_pos [of "- 1022"] by linarith
  have "p \<le> abs x"
    using floorLog2_bounds(1) [OF pos] assms(2) by (simp add: max_def p_def)
  then have "p / 2 ^ 53 \<le> abs x / 2 ^ 53"
    by (rule divide_right_mono) simp
  moreover have "pow2 (max (floorLog2 (abs x)) (- 1022) - 52) = p * pow2 (- 52)"
    using pow2_add [of "max (floorLog2 (abs x)) (- 1022)" "- 52"] by (simp add: p_def)
  then have "pow2 (max (floorLog2 (abs x)) (- 1022) - 52) / 2 = p / 2 ^ 53"
    by (simp add: pow2_def)
  ultimately show ?thesis
    using toDouble_near [OF assms(1)] by linarith
qed

lemma roundHalfEven_bounds:
  assumes "of_int lo \<le> y" and "y \<le> of_int hi"
  shows "lo \<le> roundHalfEven y" and "roundHalfEven y \<le> hi"
proof -
  from roundHalfEven_near [of y] have "y - 1 / 2 \<le> of_int (roundHalfEven y)"
    and "of_int (roundHalfEven y) \<le> y + 1 / 2"
    by linarith+
  with assms have "real_of_int lo - 1 / 2 \<le> of_int (roundHalfEven y)"
    and "of_int (roundHalfEven y) \<le> real_of_int hi + 1 / 2"
    by linarith+
  then show "lo \<le> roundHalfEven y" and "roundHalfEven y \<le> hi"
    by linarith+
qed

lemma toDouble_grid:
  assumes "toDouble x = Num r"
  shows "\<exists>n e. r = of_int n * pow2 e \<and> abs n \<le> 2 ^ 53 \<and> - 1074 \<le> e \<and> e \<le> 971"
proof (cases "r = 0")
  case True
  then have "r = of_int 0 * pow2 0 \<and> abs (0::int) \<le> 2 ^ 53 \<and> - 1074 \<le> (0::int) \<and> (0::int) \<le> 971"
    by simp
  then show ?thesis by blast
next
  case False
  define a where "a = abs x"
  define e where "e = max (floorLog2 a) (- 1022) - 52"
  define n where "n = roundHalfEven (a / pow2 e)"
  have rm: "roundMagnitude a = of_int n * pow2 e"
    by (simp add: roundMagnitude_def Let_def e_def n_def)
  from assms have r: "r = (if x < 0 then - roundMagnitude a else roundMagnitude a)"
    and small: "roundMagnitude a < 2 ^ 1024"
    by (auto simp: toDouble_def Let_def signedInfinity_def signedZero_def a_def
        split: if_splits)
  from False r have "a \<noteq> 0"
    by (auto simp: roundMagnitude_def Let_def roundHalfEven_def split: if_splits)
  then have pos: "0 < a" by (simp add: a_def)
  have ulp: "0 < pow2 e" by (rule pow2_pos)
  have "a < pow2 (floorLog2 a + 1)"
    by (rule floorLog2_bounds(2) [OF pos])
  also have "\<dots> \<le> pow2 (e + 53)"
    by (rule pow2_mono) (simp add: e_def)
  also have "\<dots> = pow2 e * 2 ^ 53"
    using pow2_add [of e 53] by (simp add: pow2_def)
  finally have "a / pow2 e \<le> of_int (2 ^ 53)"
    using ulp by (simp add: field_simps)
  moreover have "of_int 0 \<le> a / pow2 e"
    using pos ulp by simp
  ultimately have range: "of_int 0 \<le> a / pow2 e" "a / pow2 e \<le> of_int (2 ^ 53)"
    by simp_all
  have lower: "0 \<le> n" and upper: "n \<le> 2 ^ 53"
    unfolding n_def by (rule roundHalfEven_bounds [OF range])+
  have e_low: "- 1074 \<le> e" by (simp add: e_def)
  have e_high: "e \<le> 971"
  proof (rule ccontr)
    assume "\<not> e \<le> 971"
    then have big: "1024 \<le> floorLog2 a" and e: "e = floorLog2 a - 52"
      by (simp_all add: e_def)
    have "pow2 (floorLog2 a) = pow2 e * 2 ^ 52"
      using pow2_add [of e 52] by (simp add: e pow2_def)
    with floorLog2_bounds(1) [OF pos] have "of_int (2 ^ 52) \<le> a / pow2 e"
      using ulp by (simp add: field_simps)
    from roundHalfEven_bounds(1) [OF this range(2)] have "2 ^ 52 \<le> n"
      by (simp add: n_def)
    then have "(2::real) ^ 52 \<le> of_int n"
      by (metis of_int_le_iff of_int_numeral of_int_power)
    then have "2 ^ 52 * pow2 e \<le> of_int n * pow2 e"
      using ulp by (intro mult_right_mono) simp_all
    moreover from big have "pow2 1024 \<le> pow2 (floorLog2 a)" by (rule pow2_mono)
    ultimately have "pow2 1024 \<le> roundMagnitude a"
      using \<open>pow2 (floorLog2 a) = pow2 e * 2 ^ 52\<close> by (simp add: rm mult.commute)
    with small show False by (simp add: pow2_def)
  qed
  from r rm have "r = of_int (if x < 0 then - n else n) * pow2 e"
    by simp
  moreover from upper lower have "abs (if x < 0 then - n else n) \<le> 2 ^ 53"
    by simp
  ultimately show ?thesis
    using e_low e_high by blast
qed

lemma jsLess_Num [simp]: "jsLess (Num a) (Num b) = (a < b)"
  by (simp add: jsLess_def)

lemma jsLess_PosInf [simp]: "jsLess (Num a) PosInf" "\<not> jsLess PosInf x"
  by (simp_all add: jsLess_def)

lemma jsLess_irrefl [simp]: "\<not> jsLess a a"
  by (simp add: jsLess_def)

lemma jsLess_trans: "jsLess a b \<Longrightarrow> jsLess b c \<Longrightarrow> jsLess a c"
  by (auto simp: jsLess_def split: if_splits)

lemma jsDiv_Num:
  "jsDiv (Num a) (Num b) =
     (if b = 0 then (if a = 0 then NaN else signedInfinity (a < 0))
      else if a = 0 then signedZero (b < 0)
      else toDouble (a / b))"
  by (simp add: jsDiv_def)

lemma jsMul_Num:
  "jsMul (Num a) (Num b) =
     (if a = 0 \<or> b = 0 then signedZero ((a < 0) \<noteq> (b < 0)) else toDouble (a * b))"
  by (simp add: jsMul_def)

lemma jsAdd_Num:
  "jsAdd (Num a) (Num b) =
     (if a = 0 then Num b else if b = 0 then Num a
      else if a + b = 0 then Num 0 else toDouble (a + b))"
  by (simp add: jsAdd_def signedZero_def)

lemma jsAdd_zero [simp]: "jsAdd (Num 0) (Num a) = Num a"
  by (simp add: jsAdd_Num)

lemmas number_eval = jsDiv_Num jsMul_Num jsAdd_Num double_eval

text \<open>
  The operators round: one tenth plus two tenths is not three tenths, 49 times the
  forty-ninth part of one is not one, a positive value divided by the negative zero is
  \<^verbatim>\<open>-Infinity\<close>, the largest double divided by one half overflows, and half the
  smallest double underflows to the zero of its sign.
\<close>

lemma toDouble_examples:
  "toDouble (1 / 10) = Num (3602879701896397 / 36028797018963968)"
  "toDouble (1 / 500) = Num (1152921504606847 / 576460752303423488)"
  "toDouble (1 / 250) = Num (1152921504606847 / 288230376151711744)"
  "toDouble (1 / 1000) = Num (1152921504606847 / 1152921504606846976)"
  "toDouble 500 = Num 500"
  by (simp_all add: double_eval)

lemma jsAdd_rounds:
  "jsAdd (jsDiv (Num 1) (Num 10)) (jsDiv (Num 2) (Num 10)) \<noteq> jsDiv (Num 3) (Num 10)"
  by (simp add: number_eval)

lemma jsMul_rounds: "jsMul (Num 49) (jsDiv (Num 1) (Num 49)) \<noteq> Num 1"
  by (simp add: number_eval)

lemma jsDiv_signed_zero: "jsDiv (Num 2) NegZero = NegInf" "jsDiv (Num 2) (Num 0) = PosInf"
  by (simp_all add: jsDiv_def signedInfinity_def)

lemma jsDiv_overflows: "jsDiv (Num ((2 ^ 53 - 1) * 2 ^ 971)) (Num (1 / 2)) = PosInf"
  by (simp add: number_eval)

lemma jsMul_underflows:
  "jsMul (Num (1 / 2 ^ 1074)) (Num (1 / 2)) = Num 0"
  "jsMul (Num (- 1 / 2 ^ 1074)) (Num (1 / 2)) = NegZero"
  by (simp_all add: number_eval)

subsection \<open>Evaluation of the example table\<close>

lemma amountOf_fields [simp]:
  "uomAmount (amountOf a n t) = Num a" "uomName (amountOf a n t) = n"
  "uomType (amountOf a n t) = t"
  by (simp_all add: amountOf_def)

lemma ConvertUnits_table [simp]:
  "ConvertUnits (tableConvertUnits rates) u n' t' =
     (if uomName u = n' \<and> uomType u = t' then Inr u
      else case map_of rates (uomName u, n') of
             None \<Rightarrow>
               Inl (External (''Cannot convert '' @ showName (uomName u) @ '' to '' @
                              showName n'))
           | Some rate \<Rightarrow>
               Inr \<lparr>uomAmount = jsMul (uomAmount u) rate, uomName = n', uomType = t'\<rparr>)"
  by (simp add: ConvertUnits_def tableConvertUnits_def split: option.splits)

lemma ConvertUnits_example [simp]:
  "ConvertUnits exampleConvertUnits u n' t' =
     (if uomName u = n' \<and> uomType u = t' then Inr u
      else case map_of exampleRates (uomName u, n') of
             None \<Rightarrow>
               Inl (External (''Cannot convert '' @ showName (uomName u) @ '' to '' @
                              showName n'))
           | Some rate \<Rightarrow>
               Inr \<lparr>uomAmount = jsMul (uomAmount u) rate, uomName = n', uomType = t'\<rparr>)"
  by (simp add: exampleConvertUnits_def)

text \<open>The rates of the example table, as the doubles they are.\<close>

lemma exampleRates_values:
  "exampleRates =
     [((otherName ''cups'', millilitres), Num 250),
      ((millilitres, otherName ''cups''), Num (1152921504606847 / 288230376151711744)),
      ((millilitres, grams), Num 1),
      ((grams, millilitres), Num 1),
      ((grams, otherName ''kilogram''), Num (1152921504606847 / 1152921504606846976)),
      ((otherName ''kilogram'', grams), Num 1000)]"
  by (simp add: exampleRates_def number_eval)

lemmas example_eval = exampleRates_values showName_def amountOf_def number_eval

subsection \<open>Conversion with fallback\<close>

lemma handleVolumeToMassConversion_threeHops:
  "handleVolumeToMassConversion cu fromUoM toUoMName =
     threeHops cu fromUoM (millilitres, volume) (grams, mass) (toUoMName, mass)"
  by (simp add: handleVolumeToMassConversion_def threeHops_def andThen_def split: sum.splits)

lemma handleMassToVolumeConversion_threeHops:
  "handleMassToVolumeConversion cu fromUoM toUoMName =
     threeHops cu fromUoM (grams, mass) (millilitres, volume) (toUoMName, volume)"
  by (simp add: handleMassToVolumeConversion_def threeHops_def andThen_def split: sum.splits)

text \<open>
  C2: for every source unit of measure and target unit name and type, a direct conversion
  that succeeds is returned as it is; when the direct conversion fails, the source is
  volume-typed and the target mass-typed, the result is the composition of the three
  direct hops source to millilitres, millilitres to grams, grams to the target unit;
  when it fails, the source is mass-typed and the target volume-typed, the result is the
  composition source to grams, grams to millilitres, millilitres to the target unit.
\<close>

theorem convertUnitsWithFallback_paths:
  "(ConvertUnits cu fromUoM toUoMName toUoMType = Inr converted \<longrightarrow>
      convertUnitsWithFallback cu fromUoM toUoMName toUoMType = Inr converted) \<and>
   (ConvertUnits cu fromUoM toUoMName toUoMType = Inl caught \<and>
      uomType fromUoM = volume \<and> toUoMType = mass \<longrightarrow>
      convertUnitsWithFallback cu fromUoM toUoMName toUoMType =
        threeHops cu fromUoM (millilitres, volume) (grams, mass) (toUoMName, mass)) \<and>
   (ConvertUnits cu fromUoM toUoMName toUoMType = Inl caught \<and>
      uomType fromUoM = mass \<and> toUoMType = volume \<longrightarrow>
      convertUnitsWithFallback cu fromUoM toUoMName toUoMType =
        threeHops cu fromUoM (grams, mass) (millilitres, volume) (toUoMName, volume))"
proof (intro conjI impI)
  assume "ConvertUnits cu fromUoM toUoMName toUoMType = Inr converted"
  then show "convertUnitsWithFallback cu fromUoM toUoMName toUoMType = Inr converted"
    by (simp add: convertUnitsWithFallback_def)
next
  assume "ConvertUnits cu fromUoM toUoMName toUoMType = Inl caught \<and>
      uomType fromUoM = volume \<and> toUoMType = mass"
  then show "convertUnitsWithFallback cu fromUoM toUoMName toUoMType =
      threeHops cu fromUoM (millilitres, volume) (grams, mass) (toUoMName, mass)"
    by (auto simp: convertUnitsWithFallback_def handleVolumeToMassConversion_threeHops)
next
  assume "ConvertUnits cu fromUoM toUoMName toUoMType = Inl caught \<and>
      uomType fromUoM = mass \<and> toUoMType = volume"
  then show "convertUnitsWithFallback cu fromUoM toUoMName toUoMType =
      threeHops cu fromUoM (grams, mass) (millilitres, volume) (toUoMName, volume)"
    by (auto simp: convertUnitsWithFallback_def handleMassToVolumeConversion_threeHops)
qed

theorem convertUnitsWithFallback_paths_witness:
  "convertUnitsWithFallback exampleConvertUnits (amountOf 500 grams mass) grams mass =
     Inr (amountOf 500 grams mass) \<and>
   convertUnitsWithFallback exampleConvertUnits (amountOf 2 (otherName ''cups'') volume)
     (otherName ''kilogram'') mass =
     threeHops exampleConvertUnits (amountOf 2 (otherName ''cups'') volume)
       (millilitres, volume) (grams, mass) (otherName ''kilogram'', mass) \<and>
   threeHops exampleConvertUnits (amountOf 2 (otherName ''cups'') volume)
       (millilitres, volume) (grams, mass) (otherName ''kilogram'', mass) =
     Inr (amountOf (1 / 2) (otherName ''kilogram'') mass) \<and>
   convertUnitsWithFallback exampleConvertUnits (amountOf 1 (otherName ''kilogram'') mass)
     (otherName ''cups'') volume =
     threeHops exampleConvertUnits (amountOf 1 (otherName ''kilogram'') mass)
       (grams, mass) (millilitres, volume) (otherName ''cups'', volume) \<and>
   threeHops exampleConvertUnits (amountOf 1 (otherName ''kilogram'') mass)
       (grams, mass) (millilitres, volume) (otherName ''cups'', volume) =
     Inr (amountOf 4 (otherName ''cups'') volume)"
proof -
  let ?cups = "amountOf 2 (otherName ''cups'') volume"
  let ?kg = "amountOf 1 (otherName ''kilogram'') mass"
  have direct: "ConvertUnits exampleConvertUnits (amountOf 500 grams mass) grams mass =
      Inr (amountOf 500 grams mass)"
    by simp
  have noCupsKg: "ConvertUnits exampleConvertUnits ?cups (otherName ''kilogram'') mass =
      Inl (External ''Cannot convert cups to kilogram'')"
    by (simp add: exampleRates_def showName_def)
  have noKgCups: "ConvertUnits exampleConvertUnits ?kg (otherName ''cups'') volume =
      Inl (External ''Cannot convert kilogram to cups'')"
    by (simp add: exampleRates_def showName_def)
  have hops1: "threeHops exampleConvertUnits ?cups (millilitres, volume) (grams, mass)
      (otherName ''kilogram'', mass) = Inr (amountOf (1 / 2) (otherName ''kilogram'') mass)"
    by (simp add: threeHops_def andThen_def example_eval)
  have hops2: "threeHops exampleConvertUnits ?kg (grams, mass) (millilitres, volume)
      (otherName ''cups'', volume) = Inr (amountOf 4 (otherName ''cups'') volume)"
    by (simp add: threeHops_def andThen_def example_eval)
  note paths = convertUnitsWithFallback_paths [where cu = exampleConvertUnits]
  from paths [of "amountOf 500 grams mass" grams mass "amountOf 500 grams mass"] direct
  have a: "convertUnitsWithFallback exampleConvertUnits (amountOf 500 grams mass) grams mass =
      Inr (amountOf 500 grams mass)"
    by blast
  from paths [of ?cups "otherName ''kilogram''" mass _ "External ''Cannot convert cups to kilogram''"] noCupsKg
  have b: "convertUnitsWithFallback exampleConvertUnits ?cups (otherName ''kilogram'') mass =
      threeHops exampleConvertUnits ?cups (millilitres, volume) (grams, mass)
        (otherName ''kilogram'', mass)"
    by simp
  from paths [of ?kg "otherName ''cups''" volume _ "External ''Cannot convert kilogram to cups''"] noKgCups
  have c: "convertUnitsWithFallback exampleConvertUnits ?kg (otherName ''cups'') volume =
      threeHops exampleConvertUnits ?kg (grams, mass) (millilitres, volume)
        (otherName ''cups'', volume)"
    by simp
  from a b c hops1 hops2 show ?thesis by simp
qed

lemma ConvertUnits_error_External:
  "ConvertUnits cu fromUoM toUoMName toUoMType = Inl e \<Longrightarrow> \<exists>msg. e = External msg"
  by (auto simp: ConvertUnits_def split: sum.splits)

lemma threeHops_Inl:
  "threeHops cu fromUoM (n1, t1) (n2, t2) (n3, t3) = Inl e \<longleftrightarrow>
     ConvertUnits cu fromUoM n1 t1 = Inl e \<or>
     (\<exists>u. ConvertUnits cu fromUoM n1 t1 = Inr u \<and>
        (ConvertUnits cu u n2 t2 = Inl e \<or>
         (\<exists>v. ConvertUnits cu u n2 t2 = Inr v \<and> ConvertUnits cu v n3 t3 = Inl e)))"
  by (auto simp: threeHops_def andThen_def split: sum.splits)

lemmas fallback_eval =
  convertUnitsWithFallback_def handleVolumeToMassConversion_def
  handleMassToVolumeConversion_def showName_def

text \<open>
  C4, as amended: when the direct conversion fails and neither fallback applies, the
  conversion fails with the error of line 66, which names the source kind and unit and
  the target kind and unit. When a fallback applies, the conversion fails exactly when
  one of its hops fails, and then with the error that this hop of the direct primitive
  threw, unchanged. Every error of the conversion is one of these two.
\<close>

theorem convertUnitsWithFallback_errors:
  "(ConvertUnits cu fromUoM toUoMName toUoMType = Inl caught \<and>
      \<not> (uomType fromUoM = volume \<and> toUoMType = mass) \<and>
      \<not> (uomType fromUoM = mass \<and> toUoMType = volume) \<longrightarrow>
      convertUnitsWithFallback cu fromUoM toUoMName toUoMType =
        Inl (UnsupportedConversion (uomType fromUoM) (uomName fromUoM) toUoMType toUoMName)) \<and>
   (ConvertUnits cu fromUoM toUoMName toUoMType = Inl caught \<and>
      uomType fromUoM = volume \<and> toUoMType = mass \<longrightarrow>
      (convertUnitsWithFallback cu fromUoM toUoMName toUoMType = Inl e \<longleftrightarrow>
         ConvertUnits cu fromUoM millilitres volume = Inl e \<or>
         (\<exists>ml. ConvertUnits cu fromUoM millilitres volume = Inr ml \<and>
            (ConvertUnits cu ml grams mass = Inl e \<or>
             (\<exists>g. ConvertUnits cu ml grams mass = Inr g \<and>
                ConvertUnits cu g toUoMName mass = Inl e))))) \<and>
   (ConvertUnits cu fromUoM toUoMName toUoMType = Inl caught \<and>
      uomType fromUoM = mass \<and> toUoMType = volume \<longrightarrow>
      (convertUnitsWithFallback cu fromUoM toUoMName toUoMType = Inl e \<longleftrightarrow>
         ConvertUnits cu fromUoM grams mass = Inl e \<or>
         (\<exists>g. ConvertUnits cu fromUoM grams mass = Inr g \<and>
            (ConvertUnits cu g millilitres volume = Inl e \<or>
             (\<exists>ml. ConvertUnits cu g millilitres volume = Inr ml \<and>
                ConvertUnits cu ml toUoMName volume = Inl e))))) \<and>
   (convertUnitsWithFallback cu fromUoM toUoMName toUoMType = Inl e \<longrightarrow>
      e = UnsupportedConversion (uomType fromUoM) (uomName fromUoM) toUoMType toUoMName \<and>
        \<not> (uomType fromUoM = volume \<and> toUoMType = mass) \<and>
        \<not> (uomType fromUoM = mass \<and> toUoMType = volume) \<or>
      (\<exists>msg. e = External msg))"
proof (intro conjI impI)
  assume "ConvertUnits cu fromUoM toUoMName toUoMType = Inl caught \<and>
      \<not> (uomType fromUoM = volume \<and> toUoMType = mass) \<and>
      \<not> (uomType fromUoM = mass \<and> toUoMType = volume)"
  then show "convertUnitsWithFallback cu fromUoM toUoMName toUoMType =
      Inl (UnsupportedConversion (uomType fromUoM) (uomName fromUoM) toUoMType toUoMName)"
    by (auto simp: convertUnitsWithFallback_def)
next
  assume "ConvertUnits cu fromUoM toUoMName toUoMType = Inl caught \<and>
      uomType fromUoM = volume \<and> toUoMType = mass"
  then have "convertUnitsWithFallback cu fromUoM toUoMName toUoMType =
      threeHops cu fromUoM (millilitres, volume) (grams, mass) (toUoMName, mass)"
    by (auto simp: convertUnitsWithFallback_def handleVolumeToMassConversion_threeHops)
  then show "convertUnitsWithFallback cu fromUoM toUoMName toUoMType = Inl e \<longleftrightarrow>
         ConvertUnits cu fromUoM millilitres volume = Inl e \<or>
         (\<exists>ml. ConvertUnits cu fromUoM millilitres volume = Inr ml \<and>
            (ConvertUnits cu ml grams mass = Inl e \<or>
             (\<exists>g. ConvertUnits cu ml grams mass = Inr g \<and>
                ConvertUnits cu g toUoMName mass = Inl e)))"
    by (simp only: threeHops_Inl)
next
  assume "ConvertUnits cu fromUoM toUoMName toUoMType = Inl caught \<and>
      uomType fromUoM = mass \<and> toUoMType = volume"
  then have "convertUnitsWithFallback cu fromUoM toUoMName toUoMType =
      threeHops cu fromUoM (grams, mass) (millilitres, volume) (toUoMName, volume)"
    by (auto simp: convertUnitsWithFallback_def handleMassToVolumeConversion_threeHops)
  then show "convertUnitsWithFallback cu fromUoM toUoMName toUoMType = Inl e \<longleftrightarrow>
         ConvertUnits cu fromUoM grams mass = Inl e \<or>
         (\<exists>g. ConvertUnits cu fromUoM grams mass = Inr g \<and>
            (ConvertUnits cu g millilitres volume = Inl e \<or>
             (\<exists>ml. ConvertUnits cu g millilitres volume = Inr ml \<and>
                ConvertUnits cu ml toUoMName volume = Inl e)))"
    by (simp only: threeHops_Inl)
next
  assume failed: "convertUnitsWithFallback cu fromUoM toUoMName toUoMType = Inl e"
  show "e = UnsupportedConversion (uomType fromUoM) (uomName fromUoM) toUoMType toUoMName \<and>
        \<not> (uomType fromUoM = volume \<and> toUoMType = mass) \<and>
        \<not> (uomType fromUoM = mass \<and> toUoMType = volume) \<or>
      (\<exists>msg. e = External msg)"
  proof (cases "ConvertUnits cu fromUoM toUoMName toUoMType")
    case (Inr converted)
    with failed show ?thesis by (simp add: convertUnitsWithFallback_def)
  next
    case (Inl caught)
    consider (vm) "uomType fromUoM = volume \<and> toUoMType = mass"
      | (mv) "uomType fromUoM = mass \<and> toUoMType = volume"
      | (none) "\<not> (uomType fromUoM = volume \<and> toUoMType = mass) \<and>
          \<not> (uomType fromUoM = mass \<and> toUoMType = volume)"
      by blast
    then show ?thesis
    proof cases
      case vm
      with Inl failed have "threeHops cu fromUoM (millilitres, volume) (grams, mass)
          (toUoMName, mass) = Inl e"
        by (auto simp: convertUnitsWithFallback_def handleVolumeToMassConversion_threeHops)
      then show ?thesis
        unfolding threeHops_Inl using ConvertUnits_error_External by blast
    next
      case mv
      with Inl failed have "threeHops cu fromUoM (grams, mass) (millilitres, volume)
          (toUoMName, volume) = Inl e"
        by (auto simp: convertUnitsWithFallback_def handleMassToVolumeConversion_threeHops)
      then show ?thesis
        unfolding threeHops_Inl using ConvertUnits_error_External by blast
    next
      case none
      with Inl failed show ?thesis
        by (auto simp: convertUnitsWithFallback_def)
    qed
  qed
qed

theorem convertUnitsWithFallback_errors_witness:
  "convertUnitsWithFallback exampleConvertUnits
     (amountOf 3 (otherName ''whole'') (otherType ''whole'')) grams mass =
     Inl (UnsupportedConversion (otherType ''whole'') (otherName ''whole'') mass grams) \<and>
   convertUnitsWithFallback exampleConvertUnits
     (amountOf 3 (otherName ''pints'') volume) grams mass =
     Inl (External ''Cannot convert pints to millilitres'') \<and>
   convertUnitsWithFallback exampleConvertUnits
     (amountOf 1 (otherName ''kilogram'') mass) (otherName ''pints'') volume =
     Inl (External ''Cannot convert millilitres to pints'')"
proof -
  let ?whole = "amountOf 3 (otherName ''whole'') (otherType ''whole'')"
  let ?pints = "amountOf 3 (otherName ''pints'') volume"
  let ?kg = "amountOf 1 (otherName ''kilogram'') mass"
  note errors = convertUnitsWithFallback_errors [where cu = exampleConvertUnits]
  have "ConvertUnits exampleConvertUnits ?whole grams mass =
      Inl (External ''Cannot convert whole to grams'')"
    by (simp add: exampleRates_def showName_def)
  with errors [of ?whole grams mass "External ''Cannot convert whole to grams''"]
  have a: "convertUnitsWithFallback exampleConvertUnits ?whole grams mass =
      Inl (UnsupportedConversion (otherType ''whole'') (otherName ''whole'') mass grams)"
    by simp
  have "ConvertUnits exampleConvertUnits ?pints grams mass =
      Inl (External ''Cannot convert pints to grams'')"
    and "ConvertUnits exampleConvertUnits ?pints millilitres volume =
      Inl (External ''Cannot convert pints to millilitres'')"
    by (simp_all add: exampleRates_def showName_def)
  with errors [of ?pints grams mass "External ''Cannot convert pints to grams''"
      "External ''Cannot convert pints to millilitres''"]
  have b: "convertUnitsWithFallback exampleConvertUnits ?pints grams mass =
      Inl (External ''Cannot convert pints to millilitres'')"
    by simp
  have "ConvertUnits exampleConvertUnits ?kg (otherName ''pints'') volume =
      Inl (External ''Cannot convert kilogram to pints'')"
    and "ConvertUnits exampleConvertUnits ?kg grams mass = Inr (amountOf 1000 grams mass)"
    and "ConvertUnits exampleConvertUnits (amountOf 1000 grams mass) millilitres volume =
      Inr (amountOf 1000 millilitres volume)"
    and "ConvertUnits exampleConvertUnits (amountOf 1000 millilitres volume)
      (otherName ''pints'') volume = Inl (External ''Cannot convert millilitres to pints'')"
    by (simp_all add: example_eval)
  with errors [of ?kg "otherName ''pints''" volume "External ''Cannot convert kilogram to pints''"
      "External ''Cannot convert millilitres to pints''"]
  have c: "convertUnitsWithFallback exampleConvertUnits ?kg (otherName ''pints'') volume =
      Inl (External ''Cannot convert millilitres to pints'')"
    by simp
  from a b c show ?thesis by blast
qed

text \<open>
  The claim as stated fails where a hop of the fallback fails. Over a table that converts
  cups to millilitres and nothing else, two cups to kilograms has no direct entry; the
  fallback converts to 500 millilitres and its second hop, millilitres to grams, throws.
  That error leaves \<^verbatim>\<open>convertUnitsWithFallback\<close> as it is: it names the pair of the
  hop, and is not the error that names cups and kilograms.
\<close>

theorem convertUnitsWithFallback_hop_error_counterexample:
  "ConvertUnits (tableConvertUnits [((otherName ''cups'', millilitres), Num 250)])
     (amountOf 2 (otherName ''cups'') volume) (otherName ''kilogram'') mass =
     Inl (External ''Cannot convert cups to kilogram'') \<and>
   convertUnitsWithFallback (tableConvertUnits [((otherName ''cups'', millilitres), Num 250)])
     (amountOf 2 (otherName ''cups'') volume) (otherName ''kilogram'') mass =
     Inl (External ''Cannot convert millilitres to grams'') \<and>
   convertUnitsWithFallback (tableConvertUnits [((otherName ''cups'', millilitres), Num 250)])
     (amountOf 2 (otherName ''cups'') volume) (otherName ''kilogram'') mass \<noteq>
     Inl (UnsupportedConversion volume (otherName ''cups'') mass (otherName ''kilogram''))"
  by (simp add: fallback_eval)

subsection \<open>Normalised cost\<close>

text \<open>
  With a collaborator that has no effect, the functions with explicit effects return
  what the functions above return, and the world they were given.
\<close>

lemma ConvertUnitsEff_pure:
  "ConvertUnitsEff (\<lambda>u n t w. (cu u n t, w)) fromUoM toUoMName toUoMType w =
     (ConvertUnits cu fromUoM toUoMName toUoMType, w)"
  by (simp add: ConvertUnitsEff_def ConvertUnits_def split: sum.splits)

lemma handleVolumeToMassConversionEff_pure:
  "handleVolumeToMassConversionEff (\<lambda>u n t w. (cu u n t, w)) fromUoM toUoMName w =
     (handleVolumeToMassConversion cu fromUoM toUoMName, w)"
  by (simp add: handleVolumeToMassConversionEff_def handleVolumeToMassConversion_def
      ConvertUnitsEff_pure split: sum.splits)

lemma handleMassToVolumeConversionEff_pure:
  "handleMassToVolumeConversionEff (\<lambda>u n t w. (cu u n t, w)) fromUoM toUoMName w =
     (handleMassToVolumeConversion cu fromUoM toUoMName, w)"
  by (simp add: handleMassToVolumeConversionEff_def handleMassToVolumeConversion_def
      ConvertUnitsEff_pure split: sum.splits)

lemma convertUnitsWithFallbackEff_pure:
  "convertUnitsWithFallbackEff (\<lambda>u n t w. (cu u n t, w)) fromUoM toUoMName toUoMType w =
     (convertUnitsWithFallback cu fromUoM toUoMName toUoMType, w)"
  by (cases "ConvertUnits cu fromUoM toUoMName toUoMType")
    (simp_all add: convertUnitsWithFallbackEff_def convertUnitsWithFallback_def
      handleVolumeToMassConversionEff_pure handleMassToVolumeConversionEff_pure
      ConvertUnitsEff_pure)

lemma getNormalizedCostEff_pure:
  "getNormalizedCostEff (\<lambda>u n t w. (cu u n t, w)) s w = (getNormalizedCost cu s, w)"
  by (cases "convertUnitsWithFallback cu (supplierProductUoM s) grams mass")
    (simp_all add: getNormalizedCostEff_def getNormalizedCost_def
      convertUnitsWithFallbackEff_pure)

text \<open>
  With any collaborator, a relation between worlds that holds across every call of the
  collaborator and is transitive holds across a call of each function: the world
  changes through the calls of the collaborator and in no other way.
\<close>

lemma ConvertUnitsEff_world:
  assumes "\<And>u n t w0. R w0 (snd (cu u n t w0))"
  shows "R w (snd (ConvertUnitsEff cu fromUoM toUoMName toUoMType w))"
proof -
  have "snd (ConvertUnitsEff cu fromUoM toUoMName toUoMType w) =
      snd (cu fromUoM toUoMName toUoMType w)"
    by (simp add: ConvertUnitsEff_def split: prod.splits sum.splits)
  with assms show ?thesis by simp
qed

lemma handleVolumeToMassConversionEff_world:
  assumes step: "\<And>u n t w0. R w0 (snd (cu u n t w0))"
    and trans: "\<And>w0 w1 w2. R w0 w1 \<Longrightarrow> R w1 w2 \<Longrightarrow> R w0 w2"
  shows "R w (snd (handleVolumeToMassConversionEff cu fromUoM toUoMName w))"
proof -
  note call = ConvertUnitsEff_world [of R cu, OF step]
  obtain r1 w1 where c1: "ConvertUnitsEff cu fromUoM millilitres volume w = (r1, w1)"
    by (cases "ConvertUnitsEff cu fromUoM millilitres volume w")
  with call [of w fromUoM millilitres volume] have r1: "R w w1" by simp
  show ?thesis
  proof (cases r1)
    case (Inl e)
    with c1 r1 show ?thesis by (simp add: handleVolumeToMassConversionEff_def)
  next
    case (Inr volumeInMl)
    obtain r2 w2 where c2: "ConvertUnitsEff cu volumeInMl grams mass w1 = (r2, w2)"
      by (cases "ConvertUnitsEff cu volumeInMl grams mass w1")
    with call [of w1 volumeInMl grams mass] have "R w1 w2" by simp
    with r1 have r2: "R w w2" by (rule trans)
    show ?thesis
    proof (cases r2)
      case (Inl e)
      with c1 c2 Inr r2 show ?thesis by (simp add: handleVolumeToMassConversionEff_def)
    next
      case inr: (Inr massInGrams)
      from call [of w2 massInGrams toUoMName mass] r2
      have "R w (snd (ConvertUnitsEff cu massInGrams toUoMName mass w2))" by (rule trans [rotated])
      with c1 c2 Inr inr show ?thesis by (simp add: handleVolumeToMassConversionEff_def)
    qed
  qed
qed

lemma handleMassToVolumeConversionEff_world:
  assumes step: "\<And>u n t w0. R w0 (snd (cu u n t w0))"
    and trans: "\<And>w0 w1 w2. R w0 w1 \<Longrightarrow> R w1 w2 \<Longrightarrow> R w0 w2"
  shows "R w (snd (handleMassToVolumeConversionEff cu fromUoM toUoMName w))"
proof -
  note call = ConvertUnitsEff_world [of R cu, OF step]
  obtain r1 w1 where c1: "ConvertUnitsEff cu fromUoM grams mass w = (r1, w1)"
    by (cases "ConvertUnitsEff cu fromUoM grams mass w")
  with call [of w fromUoM grams mass] have r1: "R w w1" by simp
  show ?thesis
  proof (cases r1)
    case (Inl e)
    with c1 r1 show ?thesis by (simp add: handleMassToVolumeConversionEff_def)
  next
    case (Inr massInGrams)
    obtain r2 w2 where c2: "ConvertUnitsEff cu massInGrams millilitres volume w1 = (r2, w2)"
      by (cases "ConvertUnitsEff cu massInGrams millilitres volume w1")
    with call [of w1 massInGrams millilitres volume] have "R w1 w2" by simp
    with r1 have r2: "R w w2" by (rule trans)
    show ?thesis
    proof (cases r2)
      case (Inl e)
      with c1 c2 Inr r2 show ?thesis by (simp add: handleMassToVolumeConversionEff_def)
    next
      case inr: (Inr volumeInMl)
      from call [of w2 volumeInMl toUoMName volume] r2
      have "R w (snd (ConvertUnitsEff cu volumeInMl toUoMName volume w2))"
        by (rule trans [rotated])
      with c1 c2 Inr inr show ?thesis by (simp add: handleMassToVolumeConversionEff_def)
    qed
  qed
qed

lemma convertUnitsWithFallbackEff_world:
  assumes step: "\<And>u n t w0. R w0 (snd (cu u n t w0))"
    and trans: "\<And>w0 w1 w2. R w0 w1 \<Longrightarrow> R w1 w2 \<Longrightarrow> R w0 w2"
  shows "R w (snd (convertUnitsWithFallbackEff cu fromUoM toUoMName toUoMType w))"
proof -
  obtain r1 w1 where c1: "ConvertUnitsEff cu fromUoM toUoMName toUoMType w = (r1, w1)"
    by (cases "ConvertUnitsEff cu fromUoM toUoMName toUoMType w")
  with ConvertUnitsEff_world [of R cu w fromUoM toUoMName toUoMType, OF step]
  have r1: "R w w1" by simp
  show ?thesis
  proof (cases r1)
    case (Inr converted)
    with c1 r1 show ?thesis by (simp add: convertUnitsWithFallbackEff_def)
  next
    case (Inl caught)
    from handleVolumeToMassConversionEff_world [of R cu w1 fromUoM toUoMName, OF step trans] r1
    have a: "R w (snd (handleVolumeToMassConversionEff cu fromUoM toUoMName w1))"
      by (rule trans [rotated])
    from handleMassToVolumeConversionEff_world [of R cu w1 fromUoM toUoMName, OF step trans] r1
    have b: "R w (snd (handleMassToVolumeConversionEff cu fromUoM toUoMName w1))"
      by (rule trans [rotated])
    from c1 Inl a b r1 show ?thesis
      by (simp add: convertUnitsWithFallbackEff_def)
  qed
qed

lemma getNormalizedCostEff_world:
  assumes step: "\<And>u n t w0. R w0 (snd (cu u n t w0))"
    and trans: "\<And>w0 w1 w2. R w0 w1 \<Longrightarrow> R w1 w2 \<Longrightarrow> R w0 w2"
  shows "R w (snd (getNormalizedCostEff cu s w))"
proof -
  have "snd (getNormalizedCostEff cu s w) =
      snd (convertUnitsWithFallbackEff cu (supplierProductUoM s) grams mass w)"
    by (simp add: getNormalizedCostEff_def split: prod.splits sum.splits)
  with convertUnitsWithFallbackEff_world [of R cu w "supplierProductUoM s" grams mass,
      OF step trans]
  show ?thesis by simp
qed

text \<open>
  C7: the normalised cost of a supplier product is its price divided by the amount
  obtained by converting its unit of measure to grams with the conversion with fallback.
  The quotient is that of the language's division: for a price and an amount that are
  finite and not zero, the quotient of the reals rounded to a double. The computation
  fails exactly when that conversion fails, and then with the conversion's error: when
  the direct conversion fails, the error that names the unit and grams for a unit that
  is no volume, and for a volume the outcome of the three hops through millilitres and
  grams. It has no side effects: with a collaborator that has none, the call returns the
  cost and leaves the world as it found it; with any collaborator, when the direct
  conversion succeeds the call leaves the world that this one call of the collaborator
  left, and every transitive relation between worlds that holds across each call of the
  collaborator holds across the call of \<^verbatim>\<open>getNormalizedCost\<close>.
\<close>

theorem getNormalizedCost_price_per_gram:
  "(convertUnitsWithFallback cu (supplierProductUoM s) grams mass = Inr inGrams \<longrightarrow>
      getNormalizedCost cu s = Inr (jsDiv (supplierPrice s) (uomAmount inGrams))) \<and>
   (convertUnitsWithFallback cu (supplierProductUoM s) grams mass = Inr inGrams \<and>
      supplierPrice s = Num p \<and> uomAmount inGrams = Num a \<and> p \<noteq> 0 \<and> a \<noteq> 0 \<longrightarrow>
      getNormalizedCost cu s = Inr (toDouble (p / a))) \<and>
   (getNormalizedCost cu s = Inl e \<longleftrightarrow>
      convertUnitsWithFallback cu (supplierProductUoM s) grams mass = Inl e) \<and>
   (ConvertUnits cu (supplierProductUoM s) grams mass = Inl caught \<and>
      uomType (supplierProductUoM s) \<noteq> volume \<longrightarrow>
      getNormalizedCost cu s =
        Inl (UnsupportedConversion (uomType (supplierProductUoM s))
               (uomName (supplierProductUoM s)) mass grams)) \<and>
   (ConvertUnits cu (supplierProductUoM s) grams mass = Inl caught \<and>
      uomType (supplierProductUoM s) = volume \<longrightarrow>
      getNormalizedCost cu s =
        andThen (threeHops cu (supplierProductUoM s) (millilitres, volume) (grams, mass)
                   (grams, mass))
          (\<lambda>supplierMass. Inr (jsDiv (supplierPrice s) (uomAmount supplierMass)))) \<and>
   getNormalizedCostEff (\<lambda>u n t w. (cu u n t, w)) s w = (getNormalizedCost cu s, w) \<and>
   (cuE (supplierProductUoM s) grams mass w = (Inr inGrams, w') \<longrightarrow>
      getNormalizedCostEff cuE s w =
        (Inr (jsDiv (supplierPrice s) (uomAmount inGrams)), w')) \<and>
   ((\<forall>u n t w0. R w0 (snd (cuE u n t w0))) \<and> (\<forall>w0 w1 w2. R w0 w1 \<and> R w1 w2 \<longrightarrow> R w0 w2) \<longrightarrow>
      R w (snd (getNormalizedCostEff cuE s w)))"
proof (intro conjI impI)
  assume "convertUnitsWithFallback cu (supplierProductUoM s) grams mass = Inr inGrams"
  then show "getNormalizedCost cu s = Inr (jsDiv (supplierPrice s) (uomAmount inGrams))"
    by (simp add: getNormalizedCost_def)
next
  assume "convertUnitsWithFallback cu (supplierProductUoM s) grams mass = Inr inGrams \<and>
      supplierPrice s = Num p \<and> uomAmount inGrams = Num a \<and> p \<noteq> 0 \<and> a \<noteq> 0"
  then show "getNormalizedCost cu s = Inr (toDouble (p / a))"
    by (simp add: getNormalizedCost_def jsDiv_Num)
next
  show "getNormalizedCost cu s = Inl e \<longleftrightarrow>
      convertUnitsWithFallback cu (supplierProductUoM s) grams mass = Inl e"
    by (cases "convertUnitsWithFallback cu (supplierProductUoM s) grams mass")
      (simp_all add: getNormalizedCost_def)
next
  assume "ConvertUnits cu (supplierProductUoM s) grams mass = Inl caught \<and>
      uomType (supplierProductUoM s) \<noteq> volume"
  then show "getNormalizedCost cu s =
      Inl (UnsupportedConversion (uomType (supplierProductUoM s))
             (uomName (supplierProductUoM s)) mass grams)"
    by (simp add: getNormalizedCost_def convertUnitsWithFallback_def)
next
  assume "ConvertUnits cu (supplierProductUoM s) grams mass = Inl caught \<and>
      uomType (supplierProductUoM s) = volume"
  then have "convertUnitsWithFallback cu (supplierProductUoM s) grams mass =
      threeHops cu (supplierProductUoM s) (millilitres, volume) (grams, mass) (grams, mass)"
    by (simp add: convertUnitsWithFallback_def handleVolumeToMassConversion_threeHops)
  then show "getNormalizedCost cu s =
      andThen (threeHops cu (supplierProductUoM s) (millilitres, volume) (grams, mass)
                 (grams, mass))
        (\<lambda>supplierMass. Inr (jsDiv (supplierPrice s) (uomAmount supplierMass)))"
    by (simp add: getNormalizedCost_def andThen_def)
next
  show "getNormalizedCostEff (\<lambda>u n t w. (cu u n t, w)) s w = (getNormalizedCost cu s, w)"
    by (rule getNormalizedCostEff_pure)
next
  assume "cuE (supplierProductUoM s) grams mass w = (Inr inGrams, w')"
  then show "getNormalizedCostEff cuE s w =
      (Inr (jsDiv (supplierPrice s) (uomAmount inGrams)), w')"
    by (simp add: getNormalizedCostEff_def convertUnitsWithFallbackEff_def ConvertUnitsEff_def)
next
  assume "(\<forall>u n t w0. R w0 (snd (cuE u n t w0))) \<and>
      (\<forall>w0 w1 w2. R w0 w1 \<and> R w1 w2 \<longrightarrow> R w0 w2)"
  then have "\<And>u n t w0. R w0 (snd (cuE u n t w0))"
    and "\<And>w0 w1 w2. R w0 w1 \<Longrightarrow> R w1 w2 \<Longrightarrow> R w0 w2"
    by blast+
  then show "R w (snd (getNormalizedCostEff cuE s w))"
    by (rule getNormalizedCostEff_world)
qed

theorem getNormalizedCost_price_per_gram_witness:
  "getNormalizedCost exampleConvertUnits supplierB = Inr (jsDiv (Num 2) (Num 1000)) \<and>
   getNormalizedCost exampleConvertUnits supplierB = Inr (toDouble (2 / 1000)) \<and>
   toDouble (2 / 1000) = Num (1152921504606847 / 576460752303423488) \<and>
   getNormalizedCost exampleConvertUnits supplierPints =
     Inl (External ''Cannot convert pints to millilitres'') \<and>
   getNormalizedCost exampleConvertUnits
     \<lparr>supplierPrice = Num 2,
      supplierProductUoM = amountOf 3 (otherName ''whole'') (otherType ''whole'')\<rparr> =
     Inl (UnsupportedConversion (otherType ''whole'') (otherName ''whole'') mass grams) \<and>
   getNormalizedCost exampleConvertUnits
     \<lparr>supplierPrice = Num 3, supplierProductUoM = amountOf 2 (otherName ''cups'') volume\<rparr> =
     Inr (jsDiv (Num 3) (Num 500)) \<and>
   getNormalizedCostEff (\<lambda>u n t w. (exampleConvertUnits u n t, w)) supplierB (5 :: nat) =
     (Inr (jsDiv (Num 2) (Num 1000)), 5) \<and>
   getNormalizedCostEff countingConvertUnits supplierB 5 =
     (Inr (jsDiv (Num 2) (Num 1000)), 6) \<and>
   getNormalizedCostEff countingConvertUnits supplierPints 5 =
     (Inl (External ''Cannot convert pints to millilitres''), 7) \<and>
   5 \<le> snd (getNormalizedCostEff countingConvertUnits supplierPints 5)"
proof -
  let ?kg = "\<lparr>uomAmount = Num 1000, uomName = grams, uomType = mass\<rparr>"
  let ?failure = "External ''Cannot convert pints to millilitres''"
  let ?whole = "\<lparr>supplierPrice = Num 2,
    supplierProductUoM = amountOf 3 (otherName ''whole'') (otherType ''whole'')\<rparr>"
  let ?cups = "\<lparr>supplierPrice = Num 3,
    supplierProductUoM = amountOf 2 (otherName ''cups'') volume\<rparr>"
  have ok: "convertUnitsWithFallback exampleConvertUnits (supplierProductUoM supplierB)
      grams mass = Inr ?kg"
    by (simp add: fallback_eval supplierB_def example_eval)
  have bad: "convertUnitsWithFallback exampleConvertUnits (supplierProductUoM supplierPints)
      grams mass = Inl ?failure"
    by (simp add: fallback_eval supplierPints_def example_eval)
  have price: "supplierPrice supplierB = Num 2"
    by (simp add: supplierB_def)
  have noWhole: "ConvertUnits exampleConvertUnits (supplierProductUoM ?whole) grams mass =
      Inl (External ''Cannot convert whole to grams'')"
    by (simp add: example_eval)
  have noCups: "ConvertUnits exampleConvertUnits (supplierProductUoM ?cups) grams mass =
      Inl (External ''Cannot convert cups to grams'')"
    by (simp add: example_eval)
  have hops: "threeHops exampleConvertUnits (supplierProductUoM ?cups) (millilitres, volume)
      (grams, mass) (grams, mass) =
      Inr \<lparr>uomAmount = Num 500, uomName = grams, uomType = mass\<rparr>"
    by (simp add: threeHops_def andThen_def example_eval)
  have counted: "countingConvertUnits (supplierProductUoM supplierB) grams mass 5 =
      (Inr ?kg, 6)"
    by (simp add: countingConvertUnits_def exampleConvertUnits_def tableConvertUnits_def
        supplierB_def example_eval)
  have twice: "getNormalizedCostEff countingConvertUnits supplierPints 5 = (Inl ?failure, 7)"
    by (simp add: getNormalizedCostEff_def convertUnitsWithFallbackEff_def
        handleVolumeToMassConversionEff_def ConvertUnitsEff_def countingConvertUnits_def
        exampleConvertUnits_def tableConvertUnits_def supplierPints_def example_eval)
  have rounded: "toDouble (2 / 1000) = Num (1152921504606847 / 576460752303423488)"
    by (simp add: double_eval)
  have counts: "\<forall>u n t w0. w0 \<le> snd (countingConvertUnits u n t w0)"
    by (simp add: countingConvertUnits_def)
  note at = getNormalizedCost_price_per_gram
    [where cu = exampleConvertUnits and inGrams = ?kg and p = 2 and a = 1000
       and e = ?failure and cuE = countingConvertUnits and w = 5 and w' = 6
       and R = "(\<le>)"]
  note cheap = at [where s = supplierB and caught = ?failure]
  note failing = at [where s = supplierPints and caught = ?failure]
  note whole = at [where s = ?whole and caught = "External ''Cannot convert whole to grams''"]
  note cups = at [where s = ?cups and caught = "External ''Cannot convert cups to grams''"]
  from cheap ok price
  have a: "getNormalizedCost exampleConvertUnits supplierB = Inr (jsDiv (Num 2) (Num 1000))"
    by simp
  from cheap ok price
  have b: "getNormalizedCost exampleConvertUnits supplierB = Inr (toDouble (2 / 1000))"
    by (simp add: jsDiv_Num)
  from failing bad
  have c: "getNormalizedCost exampleConvertUnits supplierPints = Inl ?failure"
    by simp
  from whole noWhole
  have d: "getNormalizedCost exampleConvertUnits ?whole =
      Inl (UnsupportedConversion (otherType ''whole'') (otherName ''whole'') mass grams)"
    by simp
  from cups noCups hops
  have e: "getNormalizedCost exampleConvertUnits ?cups = Inr (jsDiv (Num 3) (Num 500))"
    by (simp add: andThen_def)
  from cheap a
  have f: "getNormalizedCostEff (\<lambda>u n t w. (exampleConvertUnits u n t, w)) supplierB
      (5 :: nat) = (Inr (jsDiv (Num 2) (Num 1000)), 5)"
    by simp
  from cheap counted price
  have g: "getNormalizedCostEff countingConvertUnits supplierB 5 =
      (Inr (jsDiv (Num 2) (Num 1000)), 6)"
    by simp
  from failing counts
  have h: "5 \<le> snd (getNormalizedCostEff countingConvertUnits supplierPints 5)"
    by auto
  from a b rounded c d e f g twice h show ?thesis
    by (intro conjI)
qed

subsection \<open>Supplier selection\<close>

lemma supplierLoop_pairLoop:
  "(case supplierLoop cu p ss st of Inl e \<Rightarrow> Inl e | Inr st' \<Rightarrow> pairLoop cu rest st') =
     pairLoop cu (map (\<lambda>s. (p, s)) ss @ rest) st"
proof (induction ss arbitrary: st)
  case Nil
  show ?case by simp
next
  case (Cons s ss)
  obtain lowest sel where st: "st = (lowest, sel)" by (cases st)
  show ?case
    by (cases "getNormalizedCost cu s") (simp_all add: st Cons.IH)
qed

lemma productLoop_pairLoop: "productLoop cu ps st = pairLoop cu (suppliersInOrder ps) st"
proof (induction ps arbitrary: st)
  case Nil
  show ?case by (simp add: suppliersInOrder_def)
next
  case (Cons p ps)
  have "suppliersInOrder (p # ps) = map (\<lambda>s. (p, s)) (supplierProducts p) @ suppliersInOrder ps"
    by (simp add: suppliersInOrder_def)
  then show ?case
    by (simp add: supplierLoop_pairLoop [symmetric] Cons.IH cong: sum.case_cong)
qed

text \<open>When a supplier's cost computation fails, the first failure is the outcome.\<close>

lemma pairLoop_first_failure:
  assumes "\<forall>x\<in>set before. \<exists>c. getNormalizedCost cu (snd x) = Inr c"
    and "getNormalizedCost cu s = Inl e"
  shows "pairLoop cu (before @ (p, s) # after) st = Inl e"
  using assms(1)
proof (induction before arbitrary: st)
  case Nil
  obtain lowest sel where "st = (lowest, sel)" by (cases st)
  with assms(2) show ?case by simp
next
  case (Cons x before)
  obtain lowest sel where st: "st = (lowest, sel)" by (cases st)
  obtain p' s' where x: "x = (p', s')" by (cases x)
  from Cons.prems obtain c where "getNormalizedCost cu s' = Inr c" by (auto simp: x)
  moreover from Cons.prems have "\<forall>x\<in>set before. \<exists>c. getNormalizedCost cu (snd x) = Inr c"
    by simp
  ultimately show ?case
    by (simp add: st x Cons.IH)
qed

lemma pairLoop_Inr_all_succeed:
  "pairLoop cu xs st = Inr st' \<Longrightarrow> \<forall>x\<in>set xs. \<exists>c. getNormalizedCost cu (snd x) = Inr c"
proof (induction xs arbitrary: st)
  case Nil
  show ?case by simp
next
  case (Cons x xs)
  obtain lowest sel where st: "st = (lowest, sel)" by (cases st)
  obtain p s where x: "x = (p, s)" by (cases x)
  from Cons.prems obtain c where c: "getNormalizedCost cu s = Inr c"
    by (cases "getNormalizedCost cu s") (simp_all add: st x)
  with Cons.prems have "\<exists>st1. pairLoop cu xs st1 = Inr st'"
    by (auto simp: st x split: if_splits)
  with Cons.IH have "\<forall>x\<in>set xs. \<exists>c. getNormalizedCost cu (snd x) = Inr c"
    by blast
  with c show ?case by (simp add: x)
qed

lemma pairLoop_Inl_some_failure:
  "pairLoop cu xs st = Inl e \<Longrightarrow> \<exists>x\<in>set xs. getNormalizedCost cu (snd x) = Inl e"
proof (induction xs arbitrary: st)
  case Nil
  then show ?case by simp
next
  case (Cons x xs)
  obtain lowest sel where st: "st = (lowest, sel)" by (cases st)
  obtain p s where x: "x = (p, s)" by (cases x)
  show ?case
  proof (cases "getNormalizedCost cu s")
    case (Inl e')
    with Cons.prems show ?thesis by (simp add: st x)
  next
    case (Inr c)
    with Cons.prems have "\<exists>st1. pairLoop cu xs st1 = Inl e"
      by (auto simp: st x split: if_splits)
    with Cons.IH show ?thesis by auto
  qed
qed

text \<open>The loop invariant, when no cost computation fails.\<close>

lemma pairLoop_minimum:
  assumes "\<forall>x\<in>set xs. \<exists>c. getNormalizedCost cu (snd x) = Inr c"
  shows "(pairLoop cu xs (lowest, sel) = Inr (lowest, sel) \<and>
          (\<forall>x\<in>set xs. \<forall>c. getNormalizedCost cu (snd x) = Inr c \<longrightarrow> \<not> jsLess c lowest)) \<or>
         (\<exists>before p s after c.
            xs = before @ (p, s) # after \<and> getNormalizedCost cu s = Inr c \<and>
            jsLess c lowest \<and>
            pairLoop cu xs (lowest, sel) =
              Inr (c, Some \<lparr>cost = c, product = p, supplier = s\<rparr>) \<and>
            (\<forall>x\<in>set xs. \<forall>c'. getNormalizedCost cu (snd x) = Inr c' \<longrightarrow> \<not> jsLess c' c) \<and>
            (\<forall>x\<in>set before. getNormalizedCost cu (snd x) \<noteq> Inr c))"
  using assms
proof (induction xs arbitrary: lowest sel)
  case Nil
  show ?case by simp
next
  case (Cons x xs)
  obtain p s where x: "x = (p, s)" by (cases x)
  from Cons.prems obtain c0 where c0: "getNormalizedCost cu s = Inr c0"
    by (auto simp: x)
  from Cons.prems have rest: "\<forall>x\<in>set xs. \<exists>c. getNormalizedCost cu (snd x) = Inr c"
    by simp
  show ?case
  proof (cases "jsLess c0 lowest")
    case True
    let ?sel0 = "Some \<lparr>cost = c0, product = p, supplier = s\<rparr>"
    have step: "pairLoop cu (x # xs) (lowest, sel) = pairLoop cu xs (c0, ?sel0)"
      using True by (simp add: x c0)
    from Cons.IH [OF rest, of c0 ?sel0] show ?thesis
    proof (elim disjE conjE exE)
      assume same: "pairLoop cu xs (c0, ?sel0) = Inr (c0, ?sel0)"
        and least: "\<forall>x\<in>set xs. \<forall>c. getNormalizedCost cu (snd x) = Inr c \<longrightarrow> \<not> jsLess c c0"
      have "x # xs = [] @ (p, s) # xs \<and> getNormalizedCost cu s = Inr c0 \<and> jsLess c0 lowest \<and>
          pairLoop cu (x # xs) (lowest, sel) = Inr (c0, ?sel0) \<and>
          (\<forall>y\<in>set (x # xs). \<forall>c'. getNormalizedCost cu (snd y) = Inr c' \<longrightarrow> \<not> jsLess c' c0) \<and>
          (\<forall>y\<in>set []. getNormalizedCost cu (snd y) \<noteq> Inr c0)"
        using True same least by (auto simp: step x c0)
      then show ?thesis by blast
    next
      fix before p' s' after c
      assume split: "xs = before @ (p', s') # after"
        and c: "getNormalizedCost cu s' = Inr c"
        and less: "jsLess c c0"
        and run: "pairLoop cu xs (c0, ?sel0) =
          Inr (c, Some \<lparr>cost = c, product = p', supplier = s'\<rparr>)"
        and least: "\<forall>x\<in>set xs. \<forall>c'. getNormalizedCost cu (snd x) = Inr c' \<longrightarrow> \<not> jsLess c' c"
        and first: "\<forall>x\<in>set before. getNormalizedCost cu (snd x) \<noteq> Inr c"
      have "\<not> jsLess c0 c"
        using less jsLess_trans [of c c0 c] by auto
      moreover have "c0 \<noteq> c"
        using less by auto
      moreover have "jsLess c lowest"
        using less True by (rule jsLess_trans)
      ultimately have "x # xs = (x # before) @ (p', s') # after \<and>
          getNormalizedCost cu s' = Inr c \<and> jsLess c lowest \<and>
          pairLoop cu (x # xs) (lowest, sel) =
            Inr (c, Some \<lparr>cost = c, product = p', supplier = s'\<rparr>) \<and>
          (\<forall>y\<in>set (x # xs). \<forall>c'. getNormalizedCost cu (snd y) = Inr c' \<longrightarrow> \<not> jsLess c' c) \<and>
          (\<forall>y\<in>set (x # before). getNormalizedCost cu (snd y) \<noteq> Inr c)"
        using split c run least first True by (auto simp: step x c0)
      then show ?thesis by blast
    qed
  next
    case False
    have step: "pairLoop cu (x # xs) (lowest, sel) = pairLoop cu xs (lowest, sel)"
      using False by (simp add: x c0)
    from Cons.IH [OF rest, of lowest sel] show ?thesis
    proof (elim disjE conjE exE)
      assume "pairLoop cu xs (lowest, sel) = Inr (lowest, sel)"
        and "\<forall>x\<in>set xs. \<forall>c. getNormalizedCost cu (snd x) = Inr c \<longrightarrow> \<not> jsLess c lowest"
      with False show ?thesis
        by (auto simp: step x c0)
    next
      fix before p' s' after c
      assume split: "xs = before @ (p', s') # after"
        and c: "getNormalizedCost cu s' = Inr c"
        and less: "jsLess c lowest"
        and run: "pairLoop cu xs (lowest, sel) =
          Inr (c, Some \<lparr>cost = c, product = p', supplier = s'\<rparr>)"
        and least: "\<forall>x\<in>set xs. \<forall>c'. getNormalizedCost cu (snd x) = Inr c' \<longrightarrow> \<not> jsLess c' c"
        and first: "\<forall>x\<in>set before. getNormalizedCost cu (snd x) \<noteq> Inr c"
      have "\<not> jsLess c0 c"
        using less False jsLess_trans [of c0 c lowest] by auto
      moreover have "c0 \<noteq> c"
        using less False by auto
      ultimately have "x # xs = (x # before) @ (p', s') # after \<and>
          getNormalizedCost cu s' = Inr c \<and> jsLess c lowest \<and>
          pairLoop cu (x # xs) (lowest, sel) =
            Inr (c, Some \<lparr>cost = c, product = p', supplier = s'\<rparr>) \<and>
          (\<forall>y\<in>set (x # xs). \<forall>c'. getNormalizedCost cu (snd y) = Inr c' \<longrightarrow> \<not> jsLess c' c) \<and>
          (\<forall>y\<in>set (x # before). getNormalizedCost cu (snd y) \<noteq> Inr c)"
        using split c less run least first False by (auto simp: step x c0)
      then show ?thesis by blast
    qed
  qed
qed

lemma convertUnitsWithFallback_error_kinds:
  assumes "convertUnitsWithFallback cu fromUoM toUoMName toUoMType = Inl e"
  shows "(\<exists>msg. e = External msg) \<or> (\<exists>ft fn tt tn. e = UnsupportedConversion ft fn tt tn)"
proof (cases "ConvertUnits cu fromUoM toUoMName toUoMType")
  case (Inr converted)
  with assms show ?thesis by (simp add: convertUnitsWithFallback_def)
next
  case (Inl caught)
  with assms have "threeHops cu fromUoM (millilitres, volume) (grams, mass)
        (toUoMName, mass) = Inl e \<or>
      threeHops cu fromUoM (grams, mass) (millilitres, volume) (toUoMName, volume) = Inl e \<or>
      e = UnsupportedConversion (uomType fromUoM) (uomName fromUoM) toUoMType toUoMName"
    by (auto simp: convertUnitsWithFallback_def handleVolumeToMassConversion_threeHops
        handleMassToVolumeConversion_threeHops split: if_splits)
  then show ?thesis
    unfolding threeHops_Inl using ConvertUnits_error_External by blast
qed

lemma getNormalizedCost_error_kinds:
  "getNormalizedCost cu s = Inl e \<Longrightarrow> e \<noteq> NoSupplierFound n \<and> e \<noteq> TypeError"
  using convertUnitsWithFallback_error_kinds [of cu "supplierProductUoM s" grams mass e]
  by (auto simp: getNormalizedCost_def split: sum.splits)

lemma example_costs:
  "getNormalizedCost exampleConvertUnits supplierA = Inr (toDouble (3 / 1000))"
  "getNormalizedCost exampleConvertUnits supplierB = Inr (toDouble (1 / 500))"
  "getNormalizedCost exampleConvertUnits supplierC = Inr (toDouble (1 / 500))"
  "getNormalizedCost exampleConvertUnits supplierD = Inr (toDouble (1 / 200))"
  "getNormalizedCost exampleConvertUnits supplierPints =
     Inl (External ''Cannot convert pints to millilitres'')"
  "getNormalizedCost exampleConvertUnits supplierZero = Inr PosInf"
  by (simp_all add: getNormalizedCost_def fallback_eval example_eval supplierA_def
      supplierB_def supplierC_def supplierD_def supplierPints_def supplierZero_def)

lemma example_costs_finite:
  "jsLess (toDouble (3 / 1000)) PosInf" "jsLess (toDouble (1 / 500)) PosInf"
  "jsLess (toDouble (1 / 500)) (toDouble (3 / 1000))"
  "\<not> jsLess (toDouble (3 / 1000)) (toDouble (1 / 500))"
  "\<not> jsLess (toDouble (1 / 200)) (toDouble (1 / 500))"
  "toDouble (3 / 1000) \<noteq> toDouble (1 / 500)"
  by (simp_all add: double_eval)

lemma suppliersInOrder_selling [simp]:
  "suppliersInOrder (selling ss # ps) = map (\<lambda>s. (selling ss, s)) ss @ suppliersInOrder ps"
  "suppliersInOrder [] = []"
  by (simp_all add: suppliersInOrder_def selling_def)

lemma supplierProducts_selling [simp]: "supplierProducts (selling ss) = ss"
  by (simp add: selling_def)

text \<open>
  C3, as amended: selecting the cheapest supplier raises the error "No supplier found",
  naming the ingredient, exactly when the cost computation of every supplier succeeds
  and no cost is below \<^verbatim>\<open>Infinity\<close> (so also when there is no supplier at all). When
  the cost computation of some supplier fails, the error of the first supplier that
  fails, in iteration order, leaves the selection.
\<close>

theorem findCheapestSupplier_errors:
  "(findCheapestSupplier cu ingr ps = Inl (NoSupplierFound (ingredientName ingr)) \<longleftrightarrow>
      (\<forall>x\<in>set (suppliersInOrder ps).
         \<exists>c. getNormalizedCost cu (snd x) = Inr c \<and> \<not> jsLess c PosInf)) \<and>
   (suppliersInOrder ps = before @ (p, s) # after \<and>
      (\<forall>x\<in>set before. \<exists>c. getNormalizedCost cu (snd x) = Inr c) \<and>
      getNormalizedCost cu s = Inl e \<longrightarrow>
      findCheapestSupplier cu ingr ps = Inl e)"
proof (intro conjI impI iffI)
  assume none: "findCheapestSupplier cu ingr ps = Inl (NoSupplierFound (ingredientName ingr))"
  show "\<forall>x\<in>set (suppliersInOrder ps).
      \<exists>c. getNormalizedCost cu (snd x) = Inr c \<and> \<not> jsLess c PosInf"
  proof (cases "pairLoop cu (suppliersInOrder ps) (PosInf, None)")
    case (Inl e')
    with none have "e' = NoSupplierFound (ingredientName ingr)"
      by (simp add: findCheapestSupplier_def productLoop_pairLoop)
    with Inl pairLoop_Inl_some_failure getNormalizedCost_error_kinds show ?thesis
      by blast
  next
    case (Inr st)
    then have ok: "\<forall>x\<in>set (suppliersInOrder ps). \<exists>c. getNormalizedCost cu (snd x) = Inr c"
      by (rule pairLoop_Inr_all_succeed)
    from Inr none have "snd st = None"
      by (cases st) (auto simp: findCheapestSupplier_def productLoop_pairLoop split: option.splits)
    with Inr pairLoop_minimum [OF ok, of PosInf None]
    have "\<forall>x\<in>set (suppliersInOrder ps).
        \<forall>c. getNormalizedCost cu (snd x) = Inr c \<longrightarrow> \<not> jsLess c PosInf"
      by auto
    with ok show ?thesis by blast
  qed
next
  assume all: "\<forall>x\<in>set (suppliersInOrder ps).
      \<exists>c. getNormalizedCost cu (snd x) = Inr c \<and> \<not> jsLess c PosInf"
  then have ok: "\<forall>x\<in>set (suppliersInOrder ps). \<exists>c. getNormalizedCost cu (snd x) = Inr c"
    by blast
  from pairLoop_minimum [OF ok, of PosInf None] all
  have "pairLoop cu (suppliersInOrder ps) (PosInf, None) = Inr (PosInf, None)"
    by fastforce
  then show "findCheapestSupplier cu ingr ps = Inl (NoSupplierFound (ingredientName ingr))"
    by (simp add: findCheapestSupplier_def productLoop_pairLoop)
next
  assume "suppliersInOrder ps = before @ (p, s) # after \<and>
      (\<forall>x\<in>set before. \<exists>c. getNormalizedCost cu (snd x) = Inr c) \<and>
      getNormalizedCost cu s = Inl e"
  then have "pairLoop cu (suppliersInOrder ps) (PosInf, None) = Inl e"
    by (simp add: pairLoop_first_failure)
  then show "findCheapestSupplier cu ingr ps = Inl e"
    by (simp add: findCheapestSupplier_def productLoop_pairLoop)
qed

theorem findCheapestSupplier_errors_witness:
  "findCheapestSupplier exampleConvertUnits \<lparr>ingredientName = ''Whey''\<rparr> [] =
     Inl (NoSupplierFound ''Whey'') \<and>
   findCheapestSupplier exampleConvertUnits \<lparr>ingredientName = ''Whey''\<rparr> [selling []] =
     Inl (NoSupplierFound ''Whey'') \<and>
   findCheapestSupplier exampleConvertUnits \<lparr>ingredientName = ''Whey''\<rparr>
     [selling [supplierZero]] = Inl (NoSupplierFound ''Whey'') \<and>
   findCheapestSupplier exampleConvertUnits \<lparr>ingredientName = ''Whey''\<rparr>
     [selling [supplierA, supplierPints, supplierB]] =
     Inl (External ''Cannot convert pints to millilitres'')"
proof -
  let ?whey = "\<lparr>ingredientName = ''Whey''\<rparr>"
  note errors = findCheapestSupplier_errors [where cu = exampleConvertUnits and ingr = ?whey]
  from errors [of "[]"]
  have a: "findCheapestSupplier exampleConvertUnits ?whey [] = Inl (NoSupplierFound ''Whey'')"
    by simp
  from errors [of "[selling []]"]
  have b: "findCheapestSupplier exampleConvertUnits ?whey [selling []] =
      Inl (NoSupplierFound ''Whey'')"
    by simp
  from errors [of "[selling [supplierZero]]"]
  have c: "findCheapestSupplier exampleConvertUnits ?whey [selling [supplierZero]] =
      Inl (NoSupplierFound ''Whey'')"
    by (simp add: example_costs example_costs_finite)
  from errors [of "[selling [supplierA, supplierPints, supplierB]]"
      "[(selling [supplierA, supplierPints, supplierB], supplierA)]"
      "selling [supplierA, supplierPints, supplierB]" supplierPints
      "[(selling [supplierA, supplierPints, supplierB], supplierB)]"
      "External ''Cannot convert pints to millilitres''"]
  have d: "findCheapestSupplier exampleConvertUnits ?whey
      [selling [supplierA, supplierPints, supplierB]] =
      Inl (External ''Cannot convert pints to millilitres'')"
    by (simp add: example_costs example_costs_finite)
  from a b c d show ?thesis by blast
qed

text \<open>
  The claim as stated fails in both directions. When the only supplier's conversion
  fails, the selection throws that conversion's error, not "No supplier found". And a
  supplier that quotes a price for zero grams has the cost \<^verbatim>\<open>Infinity\<close>, which is not
  below the initial minimum: the selection throws "No supplier found" although the list
  has a supplier whose cost computation succeeds.
\<close>

theorem findCheapestSupplier_errors_counterexample:
  "getNormalizedCost exampleConvertUnits supplierPints =
     Inl (External ''Cannot convert pints to millilitres'') \<and>
   findCheapestSupplier exampleConvertUnits \<lparr>ingredientName = ''Whey''\<rparr>
     [selling [supplierPints]] = Inl (External ''Cannot convert pints to millilitres'') \<and>
   findCheapestSupplier exampleConvertUnits \<lparr>ingredientName = ''Whey''\<rparr>
     [selling [supplierPints]] \<noteq> Inl (NoSupplierFound ''Whey'') \<and>
   getNormalizedCost exampleConvertUnits supplierZero = Inr PosInf \<and>
   findCheapestSupplier exampleConvertUnits \<lparr>ingredientName = ''Whey''\<rparr>
     [selling [supplierZero]] = Inl (NoSupplierFound ''Whey'')"
  by (simp add: findCheapestSupplier_def example_costs example_costs_finite)




subsection \<open>Reading and writing properties\<close>

lemma map_of_replaceValue_same:
  "map_of obj k = Some old \<Longrightarrow> map_of (replaceValue k v obj) k = Some v"
  by (induction obj) (auto split: if_splits)

lemma map_of_replaceValue_other:
  "k' \<noteq> k \<Longrightarrow> map_of (replaceValue k v obj) k' = map_of obj k'"
  by (induction obj) auto

lemma map_of_insertIndexKey:
  "k \<notin> fst ` set obj \<Longrightarrow>
     map_of (insertIndexKey k v obj) k' = (if k' = k then Some v else map_of obj k')"
  by (induction obj) auto

lemma objGet_in_keys: "k \<in> set (objKeys m) \<Longrightarrow> \<exists>v. objGet k m = Some v"
  by (metis objGet_def objKeys_def map_of_eq_None_iff not_Some_eq set_map)

lemma objGet_not_in_keys: "k \<notin> set (objKeys m) \<Longrightarrow> objGet k m = None"
  by (simp add: objGet_def objKeys_def map_of_eq_None_iff)

lemma objGet_Some_in_keys: "objGet k m = Some v \<Longrightarrow> k \<in> set (objKeys m)"
  using objGet_not_in_keys [of k m] by auto

text \<open>
  A read after a write finds the value written, unless the write was to the name
  \<^verbatim>\<open>__proto__\<close> on an object that has no own property of that name; a write leaves
  the properties of every other name as they are.
\<close>

lemma objGet_objSet:
  assumes "k \<noteq> ''__proto__'' \<or> k \<in> set (objKeys obj)"
  shows "objGet k' (objSet k v obj) = (if k' = k then Some v else objGet k' obj)"
proof (cases "map_of obj k")
  case None
  then have new: "k \<notin> fst ` set obj"
    by (simp add: map_of_eq_None_iff)
  with assms have "k \<noteq> ''__proto__''"
    by (auto simp: objKeys_def)
  with None new show ?thesis
    by (simp add: objGet_def objSet_def objKeys_def map_of_insertIndexKey map_add_def
        split: option.splits)
next
  case (Some old)
  then have "k \<in> fst ` set obj"
    by (metis map_of_eq_None_iff option.distinct(1))
  with Some show ?thesis
    by (simp add: objGet_def objSet_def objKeys_def map_of_replaceValue_same
        map_of_replaceValue_other)
qed

lemma objSet_proto:
  "''__proto__'' \<notin> set (objKeys obj) \<Longrightarrow> objSet ''__proto__'' v obj = obj"
  by (simp add: objSet_def)

lemma objGet_objSet_other:
  assumes "k' \<noteq> k"
  shows "objGet k' (objSet k v obj) = objGet k' obj"
proof (cases "k = ''__proto__'' \<and> k \<notin> set (objKeys obj)")
  case True
  then show ?thesis by (auto simp: objSet_proto)
next
  case False
  then have "k \<noteq> ''__proto__'' \<or> k \<in> set (objKeys obj)" by blast
  from objGet_objSet [OF this] assms show ?thesis by simp
qed

lemma proto_inherited: "''__proto__'' \<in> set inheritedNames"
  by (simp add: inheritedNames_def)

subsection \<open>Nutrient accumulation\<close>

lemma addNutrientFact_amount:
  assumes "addNutrientFact cu tb requiredUoM n nutrientFact m = Inr m'"
  shows "\<exists>name v. contributionOf cu tb requiredUoM n nutrientFact = Some (name, v) \<and>
           (\<forall>k. entryAmount k m' =
                  (if k = name then jsAdd (entryAmount k m) v else entryAmount k m))"
proof -
  from assms obtain baseFact where base: "tb nutrientFact = Inr baseFact"
    by (cases "tb nutrientFact")
      (simp_all add: addNutrientFact_def GetNutrientFactInBaseUnits_def)
  let ?name = "nutrientName baseFact"
  define initialised where "initialised =
    (if ?name \<in> set inheritedNames \<or> objGet ?name m \<noteq> None then m
     else objSet ?name (initialEntry baseFact) m)"
  from assms base obtain converted where conv:
    "convertUnitsWithFallback cu requiredUoM (uomName (quantityPer baseFact))
       (uomType (quantityPer baseFact)) = Inr converted"
    by (cases "convertUnitsWithFallback cu requiredUoM (uomName (quantityPer baseFact))
        (uomType (quantityPer baseFact))")
      (simp_all add: addNutrientFact_def GetNutrientFactInBaseUnits_def Let_def)
  let ?v = "normalizedValue baseFact (uomAmount converted) n"
  from assms base conv obtain entry where entry: "objGet ?name initialised = Some entry"
    and m': "m' = objSet ?name
        (entry\<lparr>quantityAmount := (quantityAmount entry)\<lparr>uomAmount :=
           jsAdd (uomAmount (quantityAmount entry)) ?v\<rparr>\<rparr>) initialised"
    by (cases "objGet ?name initialised")
      (simp_all add: addNutrientFact_def GetNutrientFactInBaseUnits_def Let_def
        initialised_def)
  have contribution: "contributionOf cu tb requiredUoM n nutrientFact = Some (?name, ?v)"
    by (simp add: contributionOf_def base conv normalizedValue_def Let_def)
  have before: "uomAmount (quantityAmount entry) = entryAmount ?name m"
  proof (cases "objGet ?name m")
    case None
    with entry have "?name \<notin> set inheritedNames"
      by (auto simp: initialised_def split: if_splits)
    moreover from this proto_inherited have "?name \<noteq> ''__proto__''"
      by auto
    ultimately have "entry = initialEntry baseFact"
      using entry None by (simp add: initialised_def objGet_objSet)
    with None show ?thesis
      by (simp add: entryAmount_def initialEntry_def)
  next
    case (Some old)
    with entry show ?thesis
      by (simp add: entryAmount_def initialised_def)
  qed
  have others: "entryAmount k initialised = entryAmount k m" if "k \<noteq> ?name" for k
    using that by (simp add: entryAmount_def initialised_def objGet_objSet_other)
  from entry have own: "?name \<noteq> ''__proto__'' \<or> ?name \<in> set (objKeys initialised)"
    by (blast dest: objGet_Some_in_keys)
  have "entryAmount k m' =
      (if k = ?name then jsAdd (entryAmount k m) ?v else entryAmount k m)" for k
  proof (cases "k = ?name")
    case True
    with before show ?thesis
      by (simp add: m' entryAmount_def objGet_objSet [OF own])
  next
    case False
    then have "entryAmount k m' = entryAmount k initialised"
      by (simp add: m' entryAmount_def objGet_objSet_other)
    with False others show ?thesis by simp
  qed
  with contribution show ?thesis by blast
qed

lemma nutrientLoop_amounts:
  assumes "nutrientLoop cu tb requiredUoM n facts m = Inr m'"
  shows "(\<forall>f\<in>set facts. contributionOf cu tb requiredUoM n f \<noteq> None) \<and>
         (\<forall>k. entryAmount k m' =
                foldl jsAdd (entryAmount k m) (contributionsTo k cu tb requiredUoM n facts))"
  using assms
proof (induction facts arbitrary: m)
  case Nil
  then show ?case
    by (simp add: contributionsTo_def)
next
  case (Cons f facts)
  from Cons.prems obtain m1 where step: "addNutrientFact cu tb requiredUoM n f m = Inr m1"
    and rest: "nutrientLoop cu tb requiredUoM n facts m1 = Inr m'"
    by (cases "addNutrientFact cu tb requiredUoM n f m") simp_all
  from addNutrientFact_amount [OF step] obtain name v where
    c: "contributionOf cu tb requiredUoM n f = Some (name, v)"
    and m1: "\<And>k. entryAmount k m1 =
      (if k = name then jsAdd (entryAmount k m) v else entryAmount k m)"
    by blast
  from Cons.IH [OF rest] have
    ih1: "\<forall>f\<in>set facts. contributionOf cu tb requiredUoM n f \<noteq> None"
    and ih2: "\<And>k. entryAmount k m' =
      foldl jsAdd (entryAmount k m1) (contributionsTo k cu tb requiredUoM n facts)"
    by blast+
  have "contributionsTo k cu tb requiredUoM n (f # facts) =
      (if k = name then [v] else []) @ contributionsTo k cu tb requiredUoM n facts" for k
    by (auto simp: contributionsTo_def c)
  with ih1 ih2 m1 c show ?case
    by simp
qed

text \<open>
  When the accumulation for a line item returns, the required quantity converts to grams
  (\<open>normalizedMassGrams\<close>), the returned cost is \<open>normalizedMassGrams\<close> times the
  cost of the selected supplier, every nutrient fact of the selected product has a
  contribution, and the amount stored for each nutrient name is the amount stored before
  plus, fact by fact, the value
  \<open>(totalNutrientForIngredient / normalizedMassGrams) * quantityPer.amount\<close> of the
  facts of that name, where \<open>totalNutrientForIngredient\<close> is
  \<open>quantityAmount.amount / quantityPer.amount\<close> of the fact in base units times the
  required quantity converted into the unit of the fact's \<open>quantityPer\<close>.
\<close>

lemma calculateNutrientContribution_amounts:
  assumes "calculateNutrientContribution cu tb requiredUoM selectedSupplier nutrientMap =
             Inr (ingredientCost, nutrientMap')"
  shows "\<exists>inGrams.
           convertUnitsWithFallback cu requiredUoM grams mass = Inr inGrams \<and>
           ingredientCost = jsMul (uomAmount inGrams) (cost selectedSupplier) \<and>
           (\<forall>f\<in>set (nutrientFacts (product selectedSupplier)).
              contributionOf cu tb requiredUoM (uomAmount inGrams) f \<noteq> None) \<and>
           (\<forall>k. entryAmount k nutrientMap' =
                  foldl jsAdd (entryAmount k nutrientMap)
                    (contributionsTo k cu tb requiredUoM (uomAmount inGrams)
                       (nutrientFacts (product selectedSupplier))))"
proof -
  from assms obtain inGrams where
    grams: "convertUnitsWithFallback cu requiredUoM grams mass = Inr inGrams"
    by (cases "convertUnitsWithFallback cu requiredUoM grams mass")
      (simp_all add: calculateNutrientContribution_def)
  with assms have loop: "nutrientLoop cu tb requiredUoM (uomAmount inGrams)
      (nutrientFacts (product selectedSupplier)) nutrientMap = Inr nutrientMap'"
    and cost: "ingredientCost = jsMul (uomAmount inGrams) (cost selectedSupplier)"
    by (auto simp: calculateNutrientContribution_def Let_def split: sum.splits)
  from nutrientLoop_amounts [OF loop] grams cost show ?thesis
    by blast
qed

text \<open>
  The accumulation returns when the required quantity converts to grams and every
  nutrient fact of the selected product has a contribution under a name that is not the
  name of a member of \<^verbatim>\<open>Object.prototype\<close>.
\<close>

lemma addNutrientFact_returns:
  assumes base: "tb nutrientFact = Inr baseFact"
    and name: "nutrientName baseFact \<notin> set inheritedNames"
    and conv: "convertUnitsWithFallback cu requiredUoM (uomName (quantityPer baseFact))
       (uomType (quantityPer baseFact)) = Inr converted"
  shows "\<exists>m'. addNutrientFact cu tb requiredUoM n nutrientFact m = Inr m'"
proof -
  from name proto_inherited have plain: "nutrientName baseFact \<noteq> ''__proto__''"
    by auto
  show ?thesis
  proof (cases "objGet (nutrientName baseFact) m")
    case None
    with base conv name plain show ?thesis
      by (simp add: addNutrientFact_def GetNutrientFactInBaseUnits_def Let_def objGet_objSet)
  next
    case (Some entry)
    with base conv show ?thesis
      by (simp add: addNutrientFact_def GetNutrientFactInBaseUnits_def Let_def)
  qed
qed

lemma nutrientLoop_returns:
  assumes "\<forall>f\<in>set facts. \<exists>baseFact converted.
      tb f = Inr baseFact \<and> nutrientName baseFact \<notin> set inheritedNames \<and>
      convertUnitsWithFallback cu requiredUoM (uomName (quantityPer baseFact))
        (uomType (quantityPer baseFact)) = Inr converted"
  shows "\<exists>m'. nutrientLoop cu tb requiredUoM n facts m = Inr m'"
  using assms
proof (induction facts arbitrary: m)
  case Nil
  show ?case by simp
next
  case (Cons f facts)
  from Cons.prems obtain baseFact converted where "tb f = Inr baseFact"
    and "nutrientName baseFact \<notin> set inheritedNames"
    and "convertUnitsWithFallback cu requiredUoM (uomName (quantityPer baseFact))
        (uomType (quantityPer baseFact)) = Inr converted"
    by auto
  from addNutrientFact_returns [of tb f baseFact cu requiredUoM converted n m, OF this]
  obtain m1 where
    "addNutrientFact cu tb requiredUoM n f m = Inr m1"
    by blast
  moreover from Cons.prems Cons.IH [of m1] obtain m' where
    "nutrientLoop cu tb requiredUoM n facts m1 = Inr m'"
    by auto
  ultimately show ?case by simp
qed

lemma calculateNutrientContribution_returns:
  assumes "convertUnitsWithFallback cu requiredUoM grams mass = Inr inGrams"
    and "\<forall>f\<in>set (nutrientFacts (product selectedSupplier)). \<exists>baseFact converted.
      tb f = Inr baseFact \<and> nutrientName baseFact \<notin> set inheritedNames \<and>
      convertUnitsWithFallback cu requiredUoM (uomName (quantityPer baseFact))
        (uomType (quantityPer baseFact)) = Inr converted"
  shows "\<exists>nutrientMap'.
      calculateNutrientContribution cu tb requiredUoM selectedSupplier nutrientMap =
        Inr (jsMul (uomAmount inGrams) (cost selectedSupplier), nutrientMap')"
proof -
  from nutrientLoop_returns [OF assms(2), of "uomAmount inGrams" nutrientMap]
  obtain m' where "nutrientLoop cu tb requiredUoM (uomAmount inGrams)
      (nutrientFacts (product selectedSupplier)) nutrientMap = Inr m'"
    by blast
  with assms(1) show ?thesis
    by (simp add: calculateNutrientContribution_def)
qed

text \<open>
  Under the name of a member of \<^verbatim>\<open>Object.prototype\<close> that the map does not hold as
  its own property, the step throws although the fact has a contribution: the test of
  line 192 finds the inherited member and creates no entry, and line 221 reads
  \<^verbatim>\<open>uomAmount\<close> of the \<^verbatim>\<open>quantityAmount\<close> that this member does not have.
\<close>

lemma addNutrientFact_inherited_name:
  assumes "tb nutrientFact = Inr baseFact"
    and "nutrientName baseFact \<in> set inheritedNames"
    and "objGet (nutrientName baseFact) m = None"
    and "convertUnitsWithFallback cu requiredUoM (uomName (quantityPer baseFact))
       (uomType (quantityPer baseFact)) = Inr converted"
  shows "addNutrientFact cu tb requiredUoM n nutrientFact m = Inl TypeError"
    and "contributionOf cu tb requiredUoM n nutrientFact \<noteq> None"
  using assms
  by (simp_all add: addNutrientFact_def GetNutrientFactInBaseUnits_def contributionOf_def
      Let_def)

text \<open>
  An accumulation over the example table, into a map that already holds protein: 200 g
  of a product with the facts 10 g protein per 100 g, 3 g sodium per 100 ml and 2 g
  protein per 100 g, at a cost of 0.25 per gram.
\<close>

lemma example_from_grams [simp]:
  "convertUnitsWithFallback exampleConvertUnits (amountOf a grams mass) grams mass =
     Inr (amountOf a grams mass)"
  "convertUnitsWithFallback exampleConvertUnits (amountOf 200 grams mass) millilitres volume =
     Inr (amountOf 200 millilitres volume)"
  by (simp_all add: convertUnitsWithFallback_def example_eval)

lemma example_from_grams_record:
  "convertUnitsWithFallback exampleConvertUnits
     \<lparr>uomAmount = Num a, uomName = grams, uomType = mass\<rparr> grams mass =
     Inr \<lparr>uomAmount = Num a, uomName = grams, uomType = mass\<rparr>"
  "convertUnitsWithFallback exampleConvertUnits
     \<lparr>uomAmount = Num 200, uomName = grams, uomType = mass\<rparr> millilitres volume =
     Inr \<lparr>uomAmount = Num 200, uomName = millilitres, uomType = volume\<rparr>"
  using example_from_grams(1) [of a] example_from_grams(2) by (simp_all add: amountOf_def)

lemma names_not_special:
  "''Protein'' \<notin> set inheritedNames" "''Sodium'' \<notin> set inheritedNames"
  "\<not> isArrayIndex ''Protein''" "\<not> isArrayIndex ''Sodium''"
  by (simp_all add: inheritedNames_def isArrayIndex_def isDigit_def)

lemma mix_values:
  "normalizedValue (scenarioFact 10) (Num 200) (Num 200) = Num 10"
  "normalizedValue (sodiumFact 3) (Num 200) (Num 200) = Num 3"
  "normalizedValue (scenarioFact 2) (Num 200) (Num 200) = Num 2"
  "jsAdd (Num 7) (Num 10) = Num 17" "jsAdd (Num 0) (Num 3) = Num 3"
  "jsAdd (Num 17) (Num 2) = Num 19" "jsMul (Num 200) (Num (1 / 4)) = Num 50"
  by (simp_all add: normalizedValue_def scenarioFact_def sodiumFact_def number_eval)

lemma mix_steps:
  "addNutrientFact exampleConvertUnits Inr (amountOf 200 grams mass) (Num 200)
     (scenarioFact 10) [(''Protein'', scenarioFact 7)] = Inr [(''Protein'', scenarioFact 17)]"
  "addNutrientFact exampleConvertUnits Inr (amountOf 200 grams mass) (Num 200)
     (sodiumFact 3) [(''Protein'', scenarioFact 17)] =
     Inr [(''Protein'', scenarioFact 17), (''Sodium'', sodiumFact 3)]"
  "addNutrientFact exampleConvertUnits Inr (amountOf 200 grams mass) (Num 200)
     (scenarioFact 2) [(''Protein'', scenarioFact 17), (''Sodium'', sodiumFact 3)] =
     Inr [(''Protein'', scenarioFact 19), (''Sodium'', sodiumFact 3)]"
  using mix_values
  by (simp_all add: addNutrientFact_def GetNutrientFactInBaseUnits_def scenarioFact_def
      sodiumFact_def names_not_special objGet_def objSet_def objKeys_def initialEntry_def
      amountOf_def example_from_grams_record Let_def)

lemma mix_contributions:
  "contributionsTo ''Protein'' exampleConvertUnits Inr (amountOf 200 grams mass) (Num 200)
     [scenarioFact 10, sodiumFact 3, scenarioFact 2] = [Num 10, Num 2]"
  "contributionsTo ''Sodium'' exampleConvertUnits Inr (amountOf 200 grams mass) (Num 200)
     [scenarioFact 10, sodiumFact 3, scenarioFact 2] = [Num 3]"
  using mix_values
  by (simp_all add: contributionsTo_def contributionOf_def normalizedValue_def scenarioFact_def
      sodiumFact_def List.map_filter_def)

lemma calculateNutrientContribution_example:
  "calculateNutrientContribution exampleConvertUnits Inr (amountOf 200 grams mass)
     \<lparr>cost = Num (1 / 4), product = mixProduct, supplier = supplierC\<rparr>
     [(''Protein'', scenarioFact 7)] =
     Inr (Num 50, [(''Protein'', scenarioFact 19), (''Sodium'', sodiumFact 3)])"
proof -
  have "nutrientFacts mixProduct = [scenarioFact 10, sodiumFact 3, scenarioFact 2]"
    by (simp add: mixProduct_def)
  then show ?thesis
    by (simp add: calculateNutrientContribution_def mix_steps mix_values Let_def)
qed

subsection \<open>The end-to-end scenario\<close>

lemma convertUnitsWithFallback_same_unit [simp]:
  "uomName u = n \<Longrightarrow> uomType u = t \<Longrightarrow>
     convertUnitsWithFallback (tableConvertUnits rates) u n t = Inr u"
  by (simp add: convertUnitsWithFallback_def)

lemma scenario_cost:
  "getNormalizedCost (tableConvertUnits []) scenarioSupplier = Inr (toDouble (1 / 500))"
  by (simp add: getNormalizedCost_def scenarioSupplier_def jsDiv_Num)

lemma scenario_selection:
  "findCheapestSupplier (tableConvertUnits []) ingr [scenarioProduct] =
     Inr \<lparr>cost = toDouble (1 / 500), product = scenarioProduct, supplier = scenarioSupplier\<rparr>"
proof -
  have "supplierProducts scenarioProduct = [scenarioSupplier]"
    by (simp add: scenarioProduct_def)
  then show ?thesis
    by (simp add: findCheapestSupplier_def scenario_cost example_costs_finite)
qed

lemma not_inherited_Protein: "''Protein'' \<notin> set inheritedNames"
  by (simp add: inheritedNames_def)

lemma not_index_Protein: "\<not> isArrayIndex ''Protein''"
  by (simp add: isArrayIndex_def isDigit_def)

lemma scenario_step:
  "addNutrientFact (tableConvertUnits []) Inr (amountOf 500 grams mass) (Num 500)
     (scenarioFact 10) [] = Inr [(''Protein'', scenarioFact 10)]"
  by (simp add: addNutrientFact_def GetNutrientFactInBaseUnits_def scenarioFact_def
      not_inherited_Protein not_index_Protein objGet_def objSet_def objKeys_def
      initialEntry_def normalizedValue_def amountOf_def number_eval)

lemma scenario_contribution:
  "calculateNutrientContribution (tableConvertUnits []) Inr (amountOf 500 grams mass)
     \<lparr>cost = toDouble (1 / 500), product = scenarioProduct, supplier = scenarioSupplier\<rparr> [] =
     Inr (Num 1, [(''Protein'', scenarioFact 10)])"
proof -
  have "nutrientFacts scenarioProduct = [scenarioFact 10]"
    by (simp add: scenarioProduct_def)
  then show ?thesis
    by (simp add: calculateNutrientContribution_def scenario_step number_eval)
qed

lemma sort_single_Protein:
  "sortNutrientsAlphabetically [(''Protein'', f)] = [(''Protein'', f)]"
  by (simp add: sortNutrientsAlphabetically_def objKeys_def objGet_def objSet_def
      not_index_Protein)

text \<open>
  C1, as amended: in the end-to-end scenario (gram-to-gram conversions are the identity,
  as is the normalisation of the fact to base units) the summary has cost 1.00 and a
  nutrient mapping whose only entry, Protein, has the amount 10 per 100 g: the 50 g of
  protein in the 500 g of the ingredient are divided by the 500 g and multiplied by the
  basis 100, as line 218 computes.
\<close>

theorem scenario_summary:
  "calculateRecipeSummary (tableConvertUnits []) Inr (\<lambda>i. Inr [scenarioProduct])
     [scenarioRecipe] =
     Inr [(''Shake'',
           \<lparr>cheapestCost = Num 1,
            nutrientsAtCheapestCost =
              [(''Protein'',
                \<lparr>nutrientName = ''Protein'', quantityAmount = amountOf 10 grams mass,
                 quantityPer = amountOf 100 grams mass\<rparr>)]\<rparr>)]"
proof -
  have items: "lineItems scenarioRecipe =
      [\<lparr>ingredient = \<lparr>ingredientName = ''Whey''\<rparr>, unitOfMeasure = amountOf 500 grams mass\<rparr>]"
    and name: "recipeName scenarioRecipe = ''Shake''"
    by (simp_all add: scenarioRecipe_def)
  have "summarizeRecipe (tableConvertUnits []) Inr (\<lambda>i. Inr [scenarioProduct]) scenarioRecipe =
      Inr \<lparr>cheapestCost = Num 1, nutrientsAtCheapestCost = [(''Protein'', scenarioFact 10)]\<rparr>"
    by (simp add: summarizeRecipe_def items GetProductsForIngredient_def scenario_selection
        scenario_contribution sort_single_Protein)
  then show ?thesis
    by (simp add: calculateRecipeSummary_def name objSet_def objKeys_def isArrayIndex_def
        isDigit_def scenarioFact_def)
qed

text \<open>The claim as stated, with the amount 50, is not what the code returns.\<close>

theorem scenario_summary_counterexample:
  "calculateRecipeSummary (tableConvertUnits []) Inr (\<lambda>i. Inr [scenarioProduct])
     [scenarioRecipe] \<noteq>
     Inr [(''Shake'',
           \<lparr>cheapestCost = Num 1,
            nutrientsAtCheapestCost =
              [(''Protein'',
                \<lparr>nutrientName = ''Protein'', quantityAmount = amountOf 50 grams mass,
                 quantityPer = amountOf 100 grams mass\<rparr>)]\<rparr>)]"
proof -
  have items: "lineItems scenarioRecipe =
      [\<lparr>ingredient = \<lparr>ingredientName = ''Whey''\<rparr>, unitOfMeasure = amountOf 500 grams mass\<rparr>]"
    and name: "recipeName scenarioRecipe = ''Shake''"
    by (simp_all add: scenarioRecipe_def)
  have "summarizeRecipe (tableConvertUnits []) Inr (\<lambda>i. Inr [scenarioProduct]) scenarioRecipe =
      Inr \<lparr>cheapestCost = Num 1, nutrientsAtCheapestCost = [(''Protein'', scenarioFact 10)]\<rparr>"
    by (simp add: summarizeRecipe_def items GetProductsForIngredient_def scenario_selection
        scenario_contribution sort_single_Protein)
  then show ?thesis
    by (simp add: calculateRecipeSummary_def name objSet_def objKeys_def isArrayIndex_def
        isDigit_def scenarioFact_def amountOf_def)
qed

subsection \<open>A nutrient named as a member of the prototype\<close>

lemma constructor_selection:
  "findCheapestSupplier (tableConvertUnits []) ingr [constructorProduct] =
     Inr \<lparr>cost = toDouble (1 / 500), product = constructorProduct,
          supplier = scenarioSupplier\<rparr>"
proof -
  have "supplierProducts constructorProduct = [scenarioSupplier]"
    by (simp add: constructorProduct_def)
  then show ?thesis
    by (simp add: findCheapestSupplier_def scenario_cost example_costs_finite)
qed

lemma constructor_step:
  "addNutrientFact (tableConvertUnits []) Inr (amountOf 500 grams mass) (Num 500)
     (numberedFact ''constructor'') [] = Inl TypeError"
  by (simp add: addNutrientFact_def GetNutrientFactInBaseUnits_def numberedFact_def
      inheritedNames_def objGet_def Let_def)

lemma constructor_contribution:
  "contributionOf (tableConvertUnits []) Inr (amountOf 500 grams mass) (Num 500)
     (numberedFact ''constructor'') = Some (''constructor'', Num 1)"
  by (simp add: contributionOf_def numberedFact_def number_eval)

text \<open>
  C5 says that the accumulation step adds the contribution of every nutrient fact of the
  selected product to the entry of the map and returns the cost. For 500 g of a product
  whose one fact, 1 g per 100 g, is named \<^verbatim>\<open>constructor\<close>, every conversion succeeds
  and the fact has the contribution 1, but the step adds nothing and returns no cost: it
  throws a \<^verbatim>\<open>TypeError\<close>, and so does the summary of a recipe with that product. The
  test of line 192, under the comment "Initialize nutrient entry if needed", takes the
  member that the empty map inherits from \<^verbatim>\<open>Object.prototype\<close> for an entry.
\<close>

theorem calculateNutrientContribution_inherited_name:
  "convertUnitsWithFallback (tableConvertUnits []) (amountOf 500 grams mass) grams mass =
     Inr (amountOf 500 grams mass) \<and>
   contributionOf (tableConvertUnits []) Inr (amountOf 500 grams mass) (Num 500)
     (numberedFact ''constructor'') = Some (''constructor'', Num 1) \<and>
   calculateNutrientContribution (tableConvertUnits []) Inr (amountOf 500 grams mass)
     \<lparr>cost = toDouble (1 / 500), product = constructorProduct, supplier = scenarioSupplier\<rparr>
     [] = Inl TypeError \<and>
   calculateRecipeSummary (tableConvertUnits []) Inr (\<lambda>i. Inr [constructorProduct])
     [scenarioRecipe] = Inl TypeError"
proof -
  have facts: "nutrientFacts constructorProduct = [numberedFact ''constructor'']"
    by (simp add: constructorProduct_def)
  have items: "lineItems scenarioRecipe =
      [\<lparr>ingredient = \<lparr>ingredientName = ''Whey''\<rparr>, unitOfMeasure = amountOf 500 grams mass\<rparr>]"
    by (simp add: scenarioRecipe_def)
  have step: "calculateNutrientContribution (tableConvertUnits []) Inr
      (amountOf 500 grams mass)
      \<lparr>cost = toDouble (1 / 500), product = constructorProduct, supplier = scenarioSupplier\<rparr>
      [] = Inl TypeError"
    by (simp add: calculateNutrientContribution_def facts constructor_step)
  then have "summarizeRecipe (tableConvertUnits []) Inr (\<lambda>i. Inr [constructorProduct])
      scenarioRecipe = Inl TypeError"
    by (simp add: summarizeRecipe_def items GetProductsForIngredient_def
        constructor_selection)
  then have "calculateRecipeSummary (tableConvertUnits []) Inr
      (\<lambda>i. Inr [constructorProduct]) [scenarioRecipe] = Inl TypeError"
    by (simp add: calculateRecipeSummary_def)
  with step constructor_contribution show ?thesis
    by simp
qed

subsection \<open>Failure of one recipe among several\<close>

lemma recipeLoop_first_failure:
  assumes "\<forall>r\<in>set before. \<exists>entry. summarizeRecipe cu tb gp r = Inr entry"
    and "summarizeRecipe cu tb gp recipe = Inl e"
  shows "recipeLoop cu tb gp (before @ recipe # after) summary = Inl e"
  using assms(1)
proof (induction before arbitrary: summary)
  case Nil
  from assms(2) show ?case by simp
next
  case (Cons r before)
  then obtain entry where "summarizeRecipe cu tb gp r = Inr entry"
    by auto
  with Cons show ?case by simp
qed

lemma recipeLoop_Inr_all_succeed:
  "recipeLoop cu tb gp recipes summary = Inr summary' \<Longrightarrow>
     \<forall>r\<in>set recipes. \<exists>entry. summarizeRecipe cu tb gp r = Inr entry"
proof (induction recipes arbitrary: summary)
  case Nil
  show ?case by simp
next
  case (Cons r recipes)
  from Cons.prems obtain entry where entry: "summarizeRecipe cu tb gp r = Inr entry"
    by (cases "summarizeRecipe cu tb gp r") simp_all
  with Cons.prems have "recipeLoop cu tb gp recipes (objSet (recipeName r) entry summary) =
      Inr summary'"
    by simp
  from Cons.IH [OF this] entry show ?case by simp
qed

lemma scenario_summarizeRecipe:
  assumes "gp \<lparr>ingredientName = ''Whey''\<rparr> = Inr [scenarioProduct]"
  shows "summarizeRecipe (tableConvertUnits []) Inr gp scenarioRecipe =
     Inr \<lparr>cheapestCost = Num 1, nutrientsAtCheapestCost = [(''Protein'', scenarioFact 10)]\<rparr>"
proof -
  have "lineItems scenarioRecipe =
      [\<lparr>ingredient = \<lparr>ingredientName = ''Whey''\<rparr>, unitOfMeasure = amountOf 500 grams mass\<rparr>]"
    by (simp add: scenarioRecipe_def)
  with assms show ?thesis
    by (simp add: summarizeRecipe_def GetProductsForIngredient_def scenario_selection
        scenario_contribution sort_single_Protein)
qed

lemma paella_summarizeRecipe:
  "summarizeRecipe cu tb pantry paella = Inl (NoSupplierFound ''Saffron'')"
  by (simp add: summarizeRecipe_def paella_def GetProductsForIngredient_def pantry_def
      findCheapestSupplier_def)

lemma scenarioRecipe_name: "recipeName scenarioRecipe = ''Shake''"
  by (simp add: scenarioRecipe_def)

lemma not_index_Shake: "\<not> isArrayIndex ''Shake''"
  by (simp add: isArrayIndex_def isDigit_def)

lemma pantry_Whey: "pantry \<lparr>ingredientName = ''Whey''\<rparr> = Inr [scenarioProduct]"
  by (simp add: pantry_def)

text \<open>
  C9, as amended: when the summary is applied to a list of recipes and the processing of
  one recipe fails, every recipe before it having succeeded, the whole call fails with
  that error: the error propagates to the caller and no summary is returned, neither for
  the failed recipe nor for any other recipe of the list. A summary is returned only
  when the processing of every recipe of the list succeeds.
\<close>

theorem calculateRecipeSummary_first_failure:
  "((\<forall>r\<in>set before. \<exists>entry. summarizeRecipe cu tb gp r = Inr entry) \<and>
      summarizeRecipe cu tb gp recipe = Inl e \<longrightarrow>
      calculateRecipeSummary cu tb gp (before @ recipe # after) = Inl e) \<and>
   (calculateRecipeSummary cu tb gp recipes = Inr summary \<longrightarrow>
      (\<forall>r\<in>set recipes. \<exists>entry. summarizeRecipe cu tb gp r = Inr entry))"
  using recipeLoop_first_failure [of before cu tb gp recipe e after "[]"]
    recipeLoop_Inr_all_succeed [of cu tb gp recipes "[]" summary]
  by (simp add: calculateRecipeSummary_def)

theorem calculateRecipeSummary_first_failure_witness:
  "calculateRecipeSummary (tableConvertUnits []) Inr pantry
     [scenarioRecipe, paella, scenarioRecipe] = Inl (NoSupplierFound ''Saffron'') \<and>
   calculateRecipeSummary (tableConvertUnits []) Inr pantry [scenarioRecipe] =
     Inr [(''Shake'',
           \<lparr>cheapestCost = Num 1,
            nutrientsAtCheapestCost = [(''Protein'', scenarioFact 10)]\<rparr>)] \<and>
   (\<exists>entry. summarizeRecipe (tableConvertUnits []) Inr pantry scenarioRecipe = Inr entry)"
proof -
  note shake = scenario_summarizeRecipe [of pantry, OF pantry_Whey]
  have run: "calculateRecipeSummary (tableConvertUnits []) Inr pantry [scenarioRecipe] =
      Inr [(''Shake'',
            \<lparr>cheapestCost = Num 1,
             nutrientsAtCheapestCost = [(''Protein'', scenarioFact 10)]\<rparr>)]"
    by (simp add: calculateRecipeSummary_def shake scenarioRecipe_name objSet_def objKeys_def
        not_index_Shake)
  from calculateRecipeSummary_first_failure
         [of "[scenarioRecipe]" "tableConvertUnits []" Inr pantry paella
            "NoSupplierFound ''Saffron''" "[scenarioRecipe]"]
    shake paella_summarizeRecipe
  have a: "calculateRecipeSummary (tableConvertUnits []) Inr pantry
      [scenarioRecipe, paella, scenarioRecipe] = Inl (NoSupplierFound ''Saffron'')"
    by simp
  from calculateRecipeSummary_first_failure
         [of _ "tableConvertUnits []" Inr pantry _ _ _ "[scenarioRecipe]"] run
  have b: "\<exists>entry. summarizeRecipe (tableConvertUnits []) Inr pantry scenarioRecipe = Inr entry"
    by simp
  from a run b show ?thesis by blast
qed

text \<open>
  The claim as stated says that a failure aborts the processing of the failed recipe
  only. The first recipe below is summarised when it is the whole list; followed or
  preceded by a recipe whose ingredient has no supplier, its summary is not returned:
  the call throws.
\<close>

theorem calculateRecipeSummary_independence_counterexample:
  "calculateRecipeSummary (tableConvertUnits []) Inr pantry [scenarioRecipe] =
     Inr [(''Shake'',
           \<lparr>cheapestCost = Num 1,
            nutrientsAtCheapestCost = [(''Protein'', scenarioFact 10)]\<rparr>)] \<and>
   calculateRecipeSummary (tableConvertUnits []) Inr pantry [paella] =
     Inl (NoSupplierFound ''Saffron'') \<and>
   calculateRecipeSummary (tableConvertUnits []) Inr pantry [scenarioRecipe, paella] =
     Inl (NoSupplierFound ''Saffron'') \<and>
   calculateRecipeSummary (tableConvertUnits []) Inr pantry [paella, scenarioRecipe] =
     Inl (NoSupplierFound ''Saffron'')"
  by (simp add: calculateRecipeSummary_def scenario_summarizeRecipe [of pantry, OF pantry_Whey]
      paella_summarizeRecipe scenarioRecipe_name objSet_def objKeys_def not_index_Shake)

subsection \<open>The order of the nutrient report\<close>

text \<open>
  For an accumulated mapping that has no own property \<^verbatim>\<open>__proto__\<close> (the accumulation
  creates none), the emitted mapping holds the same entries; and when moreover the names
  are pairwise different and none is an array index, its keys iterate in ascending
  string order.
\<close>

lemma sort_step_objGet:
  assumes "set ks \<subseteq> set (objKeys m)" and "''__proto__'' \<notin> set ks"
  shows "objGet k (foldl (\<lambda>ordered name.
             case objGet name m of None \<Rightarrow> ordered | Some v \<Rightarrow> objSet name v ordered)
           acc ks) =
         (if k \<in> set ks then objGet k m else objGet k acc)"
  using assms
proof (induction ks arbitrary: acc)
  case Nil
  show ?case by simp
next
  case (Cons name ks)
  from Cons.prems obtain v where v: "objGet name m = Some v"
    using objGet_in_keys by fastforce
  from Cons.prems have "set ks \<subseteq> set (objKeys m)" and "''__proto__'' \<notin> set ks"
    and "name \<noteq> ''__proto__''"
    by auto
  from Cons.IH [OF this(1,2), of "objSet name v acc"] v this(3) show ?case
    by (simp add: objGet_objSet)
qed

lemma sortNutrientsAlphabetically_same_entries:
  assumes "''__proto__'' \<notin> set (objKeys m)"
  shows "objGet k (sortNutrientsAlphabetically m) = objGet k m"
proof -
  have "set (sort (objKeys m)) \<subseteq> set (objKeys m)"
    and "''__proto__'' \<notin> set (sort (objKeys m))"
    using assms by simp_all
  from sort_step_objGet [OF this, of k "[]"] show ?thesis
    by (auto simp: sortNutrientsAlphabetically_def objGet_not_in_keys)
      (simp add: objGet_def)
qed

lemma sort_step_objKeys:
  assumes "set ks \<subseteq> set (objKeys m)" and "distinct (objKeys acc @ ks)"
    and "\<forall>k\<in>set ks. \<not> isArrayIndex k \<and> k \<noteq> ''__proto__''"
  shows "objKeys (foldl (\<lambda>ordered name.
             case objGet name m of None \<Rightarrow> ordered | Some v \<Rightarrow> objSet name v ordered)
           acc ks) = objKeys acc @ ks"
  using assms
proof (induction ks arbitrary: acc)
  case Nil
  show ?case by simp
next
  case (Cons name ks)
  from Cons.prems(1) obtain v where v: "objGet name m = Some v"
    using objGet_in_keys by fastforce
  from Cons.prems have new: "name \<notin> set (objKeys acc)" and plain: "\<not> isArrayIndex name"
    and "name \<noteq> ''__proto__''"
    by auto
  then have set: "objSet name v acc = acc @ [(name, v)]"
    by (simp add: objSet_def)
  from Cons.prems have "set ks \<subseteq> set (objKeys m)"
    and "distinct (objKeys (acc @ [(name, v)]) @ ks)"
    and "\<forall>k\<in>set ks. \<not> isArrayIndex k \<and> k \<noteq> ''__proto__''"
    by (auto simp: objKeys_def)
  from Cons.IH [OF this] v set show ?case
    by (simp add: objKeys_def)
qed

lemma sortNutrientsAlphabetically_sorted_keys:
  assumes "distinct (objKeys m)"
    and "\<forall>k\<in>set (objKeys m). \<not> isArrayIndex k \<and> k \<noteq> ''__proto__''"
  shows "objKeys (sortNutrientsAlphabetically m) = sort (objKeys m)"
proof -
  have "set (sort (objKeys m)) \<subseteq> set (objKeys m)"
    and "distinct (objKeys [] @ sort (objKeys m))"
    and "\<forall>k\<in>set (sort (objKeys m)). \<not> isArrayIndex k \<and> k \<noteq> ''__proto__''"
    using assms by (simp_all add: objKeys_def)
  from sort_step_objKeys [OF this] show ?thesis
    by (simp add: sortNutrientsAlphabetically_def objKeys_def)
qed

lemma sortNutrientsAlphabetically_example:
  "objKeys (sortNutrientsAlphabetically [(''Zinc'', z), (''Protein'', p), (''Iron'', i)]) =
     [''Iron'', ''Protein'', ''Zinc'']"
  by (simp add: sortNutrientsAlphabetically_def objKeys_def objGet_def objSet_def
      isArrayIndex_def isDigit_def)

lemma numbered_not_inherited:
  "''10'' \<notin> set inheritedNames" "''9'' \<notin> set inheritedNames"
  by (simp_all add: inheritedNames_def)

lemma isArrayIndex_numbered: "isArrayIndex ''10''" "isArrayIndex ''9''"
  by (simp_all add: isArrayIndex_def isDigit_def decimalValue_def)

lemma sortNutrientsAlphabetically_numeric_names:
  "sort [''9'', ''10''] = [''10'', ''9''] \<and>
   objKeys (sortNutrientsAlphabetically
     [(''9'', numberedFact ''9''), (''10'', numberedFact ''10'')]) = [''9'', ''10'']"
  by (simp add: sortNutrientsAlphabetically_def objKeys_def objGet_def objSet_def
      isArrayIndex_numbered decimalValue_def)

lemma numbered_selection:
  "findCheapestSupplier (tableConvertUnits []) ingr [numberedProduct] =
     Inr \<lparr>cost = toDouble (1 / 500), product = numberedProduct, supplier = scenarioSupplier\<rparr>"
proof -
  have "supplierProducts numberedProduct = [scenarioSupplier]"
    by (simp add: numberedProduct_def)
  then show ?thesis
    by (simp add: findCheapestSupplier_def scenario_cost example_costs_finite)
qed

lemma numbered_steps:
  "addNutrientFact (tableConvertUnits []) Inr (amountOf 500 grams mass) (Num 500)
     (numberedFact ''10'') [] = Inr [(''10'', numberedFact ''10'')]"
  "addNutrientFact (tableConvertUnits []) Inr (amountOf 500 grams mass) (Num 500)
     (numberedFact ''9'') [(''10'', numberedFact ''10'')] =
     Inr [(''9'', numberedFact ''9''), (''10'', numberedFact ''10'')]"
  by (simp_all add: addNutrientFact_def GetNutrientFactInBaseUnits_def numberedFact_def
      numbered_not_inherited isArrayIndex_numbered decimalValue_def objGet_def objSet_def
      objKeys_def initialEntry_def normalizedValue_def amountOf_def number_eval)

lemma numbered_contribution:
  "calculateNutrientContribution (tableConvertUnits []) Inr (amountOf 500 grams mass)
     \<lparr>cost = toDouble (1 / 500), product = numberedProduct, supplier = scenarioSupplier\<rparr> [] =
     Inr (Num 1, [(''9'', numberedFact ''9''), (''10'', numberedFact ''10'')])"
proof -
  have "nutrientFacts numberedProduct = [numberedFact ''10'', numberedFact ''9'']"
    by (simp add: numberedProduct_def)
  then show ?thesis
    by (simp add: calculateNutrientContribution_def numbered_steps number_eval)
qed

lemma numbered_sort:
  "sortNutrientsAlphabetically [(''9'', f9), (''10'', f10)] = [(''9'', f9), (''10'', f10)]"
  by (simp add: sortNutrientsAlphabetically_def objKeys_def objGet_def objSet_def
      isArrayIndex_numbered decimalValue_def)

text \<open>
  C8 says that the keys of the emitted nutrient mapping iterate in ascending alphabetical
  order by string comparison. For a product whose nutrient facts are named 10 and 9 the
  summary succeeds and the emitted mapping iterates 9 before 10, although the string 10
  is less than the string 9: an object enumerates its array-index keys first, in numeric
  order, whatever the order of insertion.
\<close>

theorem calculateRecipeSummary_numeric_names:
  "calculateRecipeSummary (tableConvertUnits []) Inr (\<lambda>i. Inr [numberedProduct])
     [scenarioRecipe] =
     Inr [(''Shake'',
           \<lparr>cheapestCost = Num 1,
            nutrientsAtCheapestCost =
              [(''9'', numberedFact ''9''), (''10'', numberedFact ''10'')]\<rparr>)] \<and>
   ''10'' < ''9''"
proof -
  have "lineItems scenarioRecipe =
      [\<lparr>ingredient = \<lparr>ingredientName = ''Whey''\<rparr>, unitOfMeasure = amountOf 500 grams mass\<rparr>]"
    by (simp add: scenarioRecipe_def)
  then have "summarizeRecipe (tableConvertUnits []) Inr (\<lambda>i. Inr [numberedProduct])
      scenarioRecipe =
      Inr \<lparr>cheapestCost = Num 1,
           nutrientsAtCheapestCost =
             [(''9'', numberedFact ''9''), (''10'', numberedFact ''10'')]\<rparr>"
    by (simp add: summarizeRecipe_def GetProductsForIngredient_def numbered_selection
        numbered_contribution numbered_sort)
  then show ?thesis
    by (simp add: calculateRecipeSummary_def scenarioRecipe_name objSet_def objKeys_def
        not_index_Shake)
qed

subsection \<open>Recipes without line items\<close>

lemma summarizeRecipe_no_line_items:
  "lineItems recipe = [] \<Longrightarrow>
     summarizeRecipe cu tb gp recipe =
       Inr \<lparr>cheapestCost = Num 0, nutrientsAtCheapestCost = []\<rparr>"
  by (simp add: summarizeRecipe_def sortNutrientsAlphabetically_def objKeys_def)

lemma recipeLoop_other_names:
  assumes "recipeLoop cu tb gp recipes summary = Inr summary'"
    and "\<forall>r\<in>set recipes. recipeName r \<noteq> k"
  shows "objGet k summary' = objGet k summary"
  using assms
proof (induction recipes arbitrary: summary)
  case Nil
  then show ?case by simp
next
  case (Cons r recipes)
  from Cons.prems(1) obtain entry where entry: "summarizeRecipe cu tb gp r = Inr entry"
    by (cases "summarizeRecipe cu tb gp r") simp_all
  with Cons.prems have "recipeLoop cu tb gp recipes (objSet (recipeName r) entry summary) =
      Inr summary'" and "\<forall>r\<in>set recipes. recipeName r \<noteq> k" and "recipeName r \<noteq> k"
    by simp_all
  with Cons.IH [of "objSet (recipeName r) entry summary"] show ?case
    by (simp add: objGet_objSet_other)
qed

lemma recipeLoop_append:
  "recipeLoop cu tb gp (before @ rest) summary =
     (case recipeLoop cu tb gp before summary of
        Inl e \<Rightarrow> Inl e
      | Inr summary' \<Rightarrow> recipeLoop cu tb gp rest summary')"
proof (induction before arbitrary: summary)
  case Nil
  show ?case by simp
next
  case (Cons r before)
  show ?case
    by (cases "summarizeRecipe cu tb gp r") (simp_all add: Cons.IH)
qed

text \<open>
  For a recipe whose list of line items is empty and whose name is not \<^verbatim>\<open>__proto__\<close>,
  the summary succeeds and the entry of the recipe has the cost 0 and an empty nutrient
  mapping: when the recipe is the whole list, and, in a longer list whose summary
  succeeds, whenever no later recipe of the list has the same name. For an empty list of
  recipes the summary is the empty mapping.
\<close>

lemma calculateRecipeSummary_no_line_items:
  "(lineItems recipe = [] \<and> recipeName recipe \<noteq> ''__proto__'' \<longrightarrow>
      calculateRecipeSummary cu tb gp [recipe] =
        Inr [(recipeName recipe, \<lparr>cheapestCost = Num 0, nutrientsAtCheapestCost = []\<rparr>)]) \<and>
   (lineItems recipe = [] \<and> recipeName recipe \<noteq> ''__proto__'' \<and>
      calculateRecipeSummary cu tb gp (before @ recipe # after) = Inr summary \<and>
      (\<forall>r\<in>set after. recipeName r \<noteq> recipeName recipe) \<longrightarrow>
      objGet (recipeName recipe) summary =
        Some \<lparr>cheapestCost = Num 0, nutrientsAtCheapestCost = []\<rparr>) \<and>
   calculateRecipeSummary cu tb gp [] = Inr []"
proof (intro conjI impI)
  assume "lineItems recipe = [] \<and> recipeName recipe \<noteq> ''__proto__''"
  then show "calculateRecipeSummary cu tb gp [recipe] =
      Inr [(recipeName recipe, \<lparr>cheapestCost = Num 0, nutrientsAtCheapestCost = []\<rparr>)]"
    by (simp add: calculateRecipeSummary_def summarizeRecipe_no_line_items objKeys_def
        objSet_def isArrayIndex_def)
next
  assume a: "lineItems recipe = [] \<and> recipeName recipe \<noteq> ''__proto__'' \<and>
      calculateRecipeSummary cu tb gp (before @ recipe # after) = Inr summary \<and>
      (\<forall>r\<in>set after. recipeName r \<noteq> recipeName recipe)"
  let ?entry = "\<lparr>cheapestCost = Num 0, nutrientsAtCheapestCost = []\<rparr>"
  from a obtain s1 where s1: "recipeLoop cu tb gp before [] = Inr s1"
    and rest: "recipeLoop cu tb gp (recipe # after) s1 = Inr summary"
    by (cases "recipeLoop cu tb gp before []")
      (simp_all add: calculateRecipeSummary_def recipeLoop_append)
  from a rest have "recipeLoop cu tb gp after (objSet (recipeName recipe) ?entry s1) =
      Inr summary"
    by (simp add: summarizeRecipe_no_line_items)
  from recipeLoop_other_names [OF this] a
  show "objGet (recipeName recipe) summary = Some ?entry"
    by (simp add: objGet_objSet)
next
  show "calculateRecipeSummary cu tb gp [] = Inr []"
    by (simp add: calculateRecipeSummary_def)
qed

lemma calculateRecipeSummary_no_line_items_example:
  "calculateRecipeSummary (tableConvertUnits []) Inr pantry
     [scenarioRecipe, \<lparr>recipeName = ''Water'', lineItems = []\<rparr>, scenarioRecipe] =
     Inr [(''Shake'',
           \<lparr>cheapestCost = Num 1,
            nutrientsAtCheapestCost = [(''Protein'', scenarioFact 10)]\<rparr>),
          (''Water'', \<lparr>cheapestCost = Num 0, nutrientsAtCheapestCost = []\<rparr>)]"
proof -
  have "\<not> isArrayIndex ''Water''"
    by (simp add: isArrayIndex_def isDigit_def)
  then show ?thesis
    by (simp add: calculateRecipeSummary_def scenario_summarizeRecipe [of pantry, OF pantry_Whey]
        summarizeRecipe_no_line_items scenarioRecipe_name objSet_def objKeys_def
        not_index_Shake)
qed

text \<open>
  C10 says that the summary entry of a recipe without line items is exactly the cost 0
  with an empty nutrient mapping. For a recipe named \<^verbatim>\<open>__proto__\<close> the summary of the
  recipe is computed, with the cost 0 and an empty nutrient mapping, but the assignment
  of line 298 stores it under no key: it sets the prototype of \<^verbatim>\<open>summary\<close>. The
  returned mapping has no entry for the recipe: it is empty when the recipe is the whole
  list, and holds the other recipes only when there are others.
\<close>

theorem calculateRecipeSummary_proto_name:
  "summarizeRecipe cu tb gp \<lparr>recipeName = ''__proto__'', lineItems = []\<rparr> =
     Inr \<lparr>cheapestCost = Num 0, nutrientsAtCheapestCost = []\<rparr> \<and>
   calculateRecipeSummary cu tb gp [\<lparr>recipeName = ''__proto__'', lineItems = []\<rparr>] = Inr [] \<and>
   calculateRecipeSummary cu tb gp
     [\<lparr>recipeName = ''Water'', lineItems = []\<rparr>,
      \<lparr>recipeName = ''__proto__'', lineItems = []\<rparr>] =
     Inr [(''Water'', \<lparr>cheapestCost = Num 0, nutrientsAtCheapestCost = []\<rparr>)]"
  by (simp add: calculateRecipeSummary_def summarizeRecipe_no_line_items objSet_def
      objKeys_def isArrayIndex_def isDigit_def)

end
